theory Spec2Isabelle
  imports
    Complex_Main
    "HOL-Library.Extended_Nat"
    "HOL-Library.Char_ord"
    "HOL-Library.List_Lexorder"
    "HOL-Library.Product_Lexorder"
    "HOL-Library.AList"
    "HOL-Library.Multiset"
begin

section \<open>Data model shared by pdfinsert.py and pdf_fill/pdf_fill.py\<close>

text \<open>
  Both scripts drive a PDF library (PyPDF2 / pypdf) and reportlab. The library objects are
  modelled by what the scripts read from them and write to them:
  \<^item> a page is its media box (width and height, lower-left corner at the origin; \<open>None\<close>
    when reading \<open>page.mediabox\<close> raises) and the list of content operations put on it;
  \<^item> an outline entry of a reader is its title, what \<open>reader.get_page_number\<close> does with
    its page object (returns an index, which is -1 for a page object that is not a page of
    the document, or raises) and its \<open>children\<close>; \<open>reader.outline\<close> may also hold nested
    lists, which is where a reader puts the descendants of the entry before the list;
  \<^item> a writer's outline is the table of the \<open>add_outline_item\<close> calls made on it, the
    handle of an entry being its position in the table;
  \<^item> Python floats are idealised as real numbers (no rounding);
  \<^item> a string is a list of 8-bit characters, each standing for the code point of that
    number, so that the order on strings is Python's; what is printed is a value of
    \<open>event\<close>, the log being the list of events in the order they are printed.
\<close>

type_synonym path = string

datatype op =
    Source string
  | Scale real real
  | Translate real real
  | DrawString real real real string
  | DrawRightString real real real string

record page =
  mediabox :: "(real \<times> real) option"
  content :: "op list"

datatype pref = Resolves int | Unresolvable

datatype item =
    Sub "item list"
  | Entry string pref "item list"
  | Bad string

record pdf =
  pages :: "page list"
  outline :: "item list"

datatype stored = Garbage | Pdf pdf

datatype error =
    FileNotFoundError path
  | PdfReadError path
  | MediaBoxError
  | ZeroDivisionError
  | IndexError
  | OSError path

datatype event =
    WarnLabelTooLong string
  | WarnMetadataExhausted nat
  | WarnSimplifiedLabel nat
  | WarnNotEnoughInfo
  | WarnTmpRemove path
  | ErrNoPdfInDir path
  | ErrInputMissing path
  | ErrNotPdf
  | InfoFoundPdf nat
  | InfoSingleFile path
  | InfoMkdir path
  | InfoProcessingFile string
  | InfoDoneFile string
  | InfoMergingFiles nat
  | InfoMergedOutput path
  | InfoBookmarksAdded nat
  | WarnUnresolvedBookmark string
  | WarnBookmarkAttributeError string
  | WarnOddPages string nat nat
  | WarnZeroOriginalPages nat
  | InfoAddingBookmarks string
  | ErrAddPageNumbers path path
  | InfoCopiedIntermediate path
  | ErrCopyIntermediate
  | InfoProcessing path path
  | WarnEmptyFile string
  | WarnMarginCountMismatch nat nat
  | InfoDone path
  | ErrNoFinalFile string
  | ErrProcessing path error
  | InfoCopiedOriginal path
  | ErrCopyOriginal
  | WarnTempCleanup string
  | InfoMergeStart path
  | WarnNothingToMerge path
  | InfoMerging nat "string list"
  | InfoReading nat nat path
  | InfoSkipEmpty nat nat path
  | InfoFoundBookmarks
  | InfoNoBookmarks string
  | InfoAddingPages nat
  | InfoMergedFile nat nat string nat nat
  | ErrMergeFile nat nat path error
  | ErrNoPagesMerged
  | InfoMergeDone path nat nat nat
  | InfoScan path
  | WarnNoPdfFound path
  | InfoFound nat
  | Summary nat nat
  | FailedList "string list"
  | InfoSkipMerge

section \<open>Files\<close>

text \<open>
  The state the scripts act on: the regular files (an association list from path to
  content, in directory order), the directories, the paths whose deletion raises OSError,
  and what has been printed. Paths are compared as strings: two spellings of one path are
  two paths. Opening a file for writing is taken to succeed (the scripts create the
  directories they write to), and \<open>glob\<close> only returns regular files.
\<close>

record world =
  files :: "(path \<times> stored) list"
  dirs :: "path list"
  undeletable :: "path list"
  printed :: "event list"

definition print :: "event \<Rightarrow> world \<Rightarrow> world" where
  "print e s = s\<lparr>printed := printed s @ [e]\<rparr>"

definition fs_lookup :: "world \<Rightarrow> path \<Rightarrow> stored option" where
  "fs_lookup s p = map_of (files s) p"

definition is_file :: "world \<Rightarrow> path \<Rightarrow> bool" where
  "is_file s p = (fs_lookup s p \<noteq> None)"

definition isdir :: "world \<Rightarrow> path \<Rightarrow> bool" where
  "isdir s p = (p \<in> set (dirs s))"

definition exists_path :: "world \<Rightarrow> path \<Rightarrow> bool" where
  "exists_path s p = (is_file s p \<or> isdir s p)"

definition mkdir :: "path \<Rightarrow> world \<Rightarrow> world" where
  "mkdir d s = (if d \<in> set (dirs s) then s else s\<lparr>dirs := dirs s @ [d]\<rparr>)"

definition write_file :: "path \<Rightarrow> stored \<Rightarrow> world \<Rightarrow> world" where
  "write_file p c s = s\<lparr>files := AList.update p c (files s)\<rparr>"

definition copy2 :: "path \<Rightarrow> path \<Rightarrow> world \<Rightarrow> error + world" where
  "copy2 src dst s =
     (case fs_lookup s src of
        None \<Rightarrow> Inl (FileNotFoundError src)
      | Some c \<Rightarrow> Inr (write_file dst c s))"

definition unlink :: "path \<Rightarrow> world \<Rightarrow> error + world" where
  "unlink p s =
     (if p \<in> set (undeletable s) then Inl (OSError p)
      else Inr (s\<lparr>files := AList.delete p (files s)\<rparr>))"

definition PdfReader :: "world \<Rightarrow> path \<Rightarrow> error + pdf" where
  "PdfReader s p =
     (case fs_lookup s p of
        None \<Rightarrow> Inl (FileNotFoundError p)
      | Some Garbage \<Rightarrow> Inl (PdfReadError p)
      | Some (Pdf d) \<Rightarrow> Inr d)"

section \<open>pdf\_fill.py: page transformer\<close>

text \<open>reportlab.lib.units and reportlab.lib.pagesizes: inch = 72.0, cm = inch / 2.54,
  mm = cm * 0.1, A4 = (210 * mm, 297 * mm).\<close>

definition mm :: real where
  "mm = 72 / 2.54 * 0.1"

definition A4 :: "real \<times> real" where
  "A4 = (210 * mm, 297 * mm)"

definition TOP_MARGIN_RATIO :: real where
  "TOP_MARGIN_RATIO = 0.10"

definition resize_and_position_page :: "page \<Rightarrow> error + page" where
  "resize_and_position_page pg =
     (case mediabox pg of
        None \<Rightarrow> Inl MediaBoxError
      | Some (original_width, original_height) \<Rightarrow>
          (let (a4_width, a4_height) = A4 in
           if original_width = 0 then Inl ZeroDivisionError
           else
             (let scale = a4_width / original_width;
                  new_height = original_height * scale;
                  top_margin = a4_height * TOP_MARGIN_RATIO;
                  vertical_offset = a4_height - new_height - top_margin
              in Inr (pg\<lparr>content := content pg @ [Scale scale scale, Translate 0 vertical_offset],
                        mediabox := Some (a4_width, a4_height)\<rparr>))))"

section \<open>pdf\_fill.py: page-number stamper\<close>

definition base_font_size :: real where
  "base_font_size = 10"

definition min_font_size_part1 :: real where
  "min_font_size_part1 = 7"

definition y_position :: real where
  "y_position = 7 * mm"

definition left_margin_part1 :: real where
  "left_margin_part1 = 10 * mm"

definition right_margin_part2 :: real where
  "right_margin_part2 = 5 * mm"

definition gap_between_parts :: real where
  "gap_between_parts = 5 * mm"

text \<open>The \<open>while\<close> loop of lines 173-176. \<open>width_at s\<close> is
  \<open>c.stringWidth(page_text_part1, base_font_name, s)\<close>.\<close>

function shrink_loop :: "(real \<Rightarrow> real) \<Rightarrow> real \<Rightarrow> real \<Rightarrow> real \<Rightarrow> real \<times> real" where
  "shrink_loop width_at max_allowed current_font_size_part1 text_width_part1 =
     (if text_width_part1 > max_allowed \<and> current_font_size_part1 > min_font_size_part1
      then shrink_loop width_at max_allowed (current_font_size_part1 - 0.5)
             (width_at (current_font_size_part1 - 0.5))
      else (current_font_size_part1, text_width_part1))"
  by pat_completeness auto
termination
proof (relation "measure (\<lambda>(f, m, s, w). nat \<lceil>2 * (s - min_font_size_part1)\<rceil>)")
  show "wf (measure (\<lambda>(f, m, s, w). nat \<lceil>2 * (s - min_font_size_part1)\<rceil>))"
    by simp
next
  fix width_at :: "real \<Rightarrow> real" and max_allowed s w :: real
  assume a: "max_allowed < w \<and> min_font_size_part1 < s"
  have "2 * (s - 0.5 - min_font_size_part1) = 2 * (s - min_font_size_part1) - 1"
    by (simp add: algebra_simps)
  then have "\<lceil>2 * (s - 0.5 - min_font_size_part1)\<rceil> = \<lceil>2 * (s - min_font_size_part1)\<rceil> - 1"
    by (simp only: ceiling_diff_one)
  moreover have "0 < \<lceil>2 * (s - min_font_size_part1)\<rceil>"
    using a by simp
  ultimately show "((width_at, max_allowed, s - 0.5, width_at (s - 0.5)), width_at, max_allowed, s, w)
        \<in> measure (\<lambda>(f, m, s, w). nat \<lceil>2 * (s - min_font_size_part1)\<rceil>)"
    by simp
qed

text \<open>Lines 146-186: the overlay drawn for one page. \<open>string_width text size\<close> is
  \<open>c.stringWidth(text, base_font_name, size)\<close>.\<close>

definition draw_label ::
  "(string \<Rightarrow> real \<Rightarrow> real) \<Rightarrow> string \<Rightarrow> string \<Rightarrow> op list \<times> event list" where
  "draw_label string_width page_text_part1 page_text_part2 =
     (let text_width_part2 = string_width page_text_part2 base_font_size;
          x_position_part2 = fst A4 - text_width_part2 - right_margin_part2;
          (drawn1, warned) =
            (if page_text_part1 \<noteq> [] then
               (let text_width_part1 = string_width page_text_part1 base_font_size;
                    max_allowed_width_for_part1 =
                      (x_position_part2 - gap_between_parts) - left_margin_part1;
                    (size, width) =
                      shrink_loop (string_width page_text_part1) max_allowed_width_for_part1
                        base_font_size text_width_part1
                in ([DrawString left_margin_part1 y_position size page_text_part1],
                    if width > max_allowed_width_for_part1 \<and> size \<le> min_font_size_part1
                    then [WarnLabelTooLong (take 30 page_text_part1)] else []))
             else ([], []))
      in (drawn1 @ [DrawString x_position_part2 y_position base_font_size page_text_part2],
          warned))"

section \<open>Strings and paths\<close>

definition is_digit :: "char \<Rightarrow> bool" where
  "is_digit c = (CHR ''0'' \<le> c \<and> c \<le> CHR ''9'')"

text \<open>The characters below 256 that \<open>\\s\<close> matches in a \<open>str\<close> pattern.\<close>

definition is_space :: "char \<Rightarrow> bool" where
  "is_space c = (of_char c \<in> set [9, 10, 11, 12, 13, 28, 29, 30, 31, 32, 133, 160 :: nat])"

definition int_of_digits :: "string \<Rightarrow> nat" where
  "int_of_digits ds = foldl (\<lambda>acc c. 10 * acc + (of_char c - 48)) 0 ds"

definition basename :: "path \<Rightarrow> string" where
  "basename p = rev (takeWhile (\<lambda>c. c \<noteq> CHR ''/'') (rev p))"

definition slash :: "path \<Rightarrow> string \<Rightarrow> path" where
  "slash d name = d @ ''/'' @ name"

definition startswith :: "string \<Rightarrow> string \<Rightarrow> bool" where
  "startswith s pre = (take (length pre) s = pre)"

definition endswith :: "string \<Rightarrow> string \<Rightarrow> bool" where
  "endswith s suf = (take (length suf) (rev s) = rev suf)"

text \<open>\<open>Path.stem\<close>: the name without its last suffix; a dot at the start or at the end
  of the name does not begin a suffix.\<close>

definition stem :: "path \<Rightarrow> string" where
  "stem p =
     (let name = basename p;
          ext = takeWhile (\<lambda>c. c \<noteq> CHR ''.'') (rev name)
      in if CHR ''.'' \<in> set name \<and> ext \<noteq> [] \<and> length ext + 1 < length name
         then take (length name - length ext - 1) name else name)"

text \<open>\<open>os.path.splitext(name)[0]\<close> for a name without separator: the part before the
  last dot, unless only dots precede it.\<close>

definition splitext_root :: "string \<Rightarrow> string" where
  "splitext_root name =
     (let ext = takeWhile (\<lambda>c. c \<noteq> CHR ''.'') (rev name);
          root = take (length name - length ext - 1) name
      in if CHR ''.'' \<in> set name \<and> (\<exists>c\<in>set root. c \<noteq> CHR ''.'') then root else name)"

fun str_nat :: "nat \<Rightarrow> string" where
  "str_nat n = (if n < 10 then [''0123456789'' ! n]
                else str_nat (n div 10) @ [''0123456789'' ! (n mod 10)])"

declare str_nat.simps [simp del]

section \<open>pdfinsert.py: merge order\<close>

text \<open>\<open>get_sort_key\<close> of \<open>merge_pdfs_with_bookmarks\<close>: \<open>re.match(r"^\\s*(\\d+)", name)\<close>
  skips the leading whitespace and takes the longest run of digits after it; the key is
  \<open>(int(digits), name)\<close>, or \<open>(float('inf'), name)\<close> when there is no digit there.\<close>

definition get_sort_key :: "path \<Rightarrow> enat \<times> string" where
  "get_sort_key pdf_path =
     (let name = basename pdf_path;
          digits = takeWhile is_digit (dropWhile is_space name)
      in if digits \<noteq> [] then (enat (int_of_digits digits), name) else (\<infinity>, name))"

section \<open>pdfinsert.py: bookmark remapper\<close>

record writer =
  wpages :: "page list"
  woutline :: "(string \<times> int \<times> nat option) list"

text \<open>\<open>add_nested_outline\<close>. The \<open>reader\<close> argument is only used to resolve page
  objects, which \<open>pref\<close> already records. \<open>target_writer.add_outline_item\<close> appends one row
  (title, page index, parent) to the table and returns its position. An item without
  \<open>title\<close> or \<open>page\<close> (\<open>Bad\<close>) raises AttributeError, which the loop body catches.\<close>

fun add_nested_outline ::
  "item list \<Rightarrow> nat option \<Rightarrow> (int \<Rightarrow> int) \<Rightarrow> writer \<times> event list \<Rightarrow> writer \<times> event list" where
  "add_nested_outline [] target_parent page_idx_transform_func st = st"
| "add_nested_outline (Sub sub # source_items) target_parent page_idx_transform_func st =
     add_nested_outline source_items target_parent page_idx_transform_func
       (add_nested_outline sub target_parent page_idx_transform_func st)"
| "add_nested_outline (Entry title Unresolvable children # source_items) target_parent
       page_idx_transform_func st =
     add_nested_outline source_items target_parent page_idx_transform_func
       (fst st, snd st @ [WarnUnresolvedBookmark title])"
| "add_nested_outline (Entry title (Resolves source_page_index) children # source_items)
       target_parent page_idx_transform_func st =
     (let target_page_index = page_idx_transform_func source_page_index;
          new_item = length (woutline (fst st));
          st1 = ((fst st)\<lparr>woutline := woutline (fst st)
                            @ [(title, target_page_index, target_parent)]\<rparr>, snd st)
      in add_nested_outline source_items target_parent page_idx_transform_func
           (if children \<noteq> []
            then add_nested_outline children (Some new_item) page_idx_transform_func st1
            else st1))"
| "add_nested_outline (Bad shown # source_items) target_parent page_idx_transform_func st =
     add_nested_outline source_items target_parent page_idx_transform_func
       (fst st, snd st @ [WarnBookmarkAttributeError shown])"

text \<open>What a walk creates and what it skips, read off the source tree alone. \<open>created\<close>
  gives the rows that a walk adds to a table of \<open>n\<close> rows: one row for every entry whose
  page lookup returns an index, in source order, with the mapped index; the row of an entry
  hangs under the parent of the list the entry stands in, a nested list has the parent of
  the list around it, and the list in the \<open>children\<close> attribute of an entry hangs under the
  row of that entry, whose handle is its position in the table. \<open>dropped\<close> gives the titles
  of the entries whose page lookup raises.\<close>

fun created ::
  "item list \<Rightarrow> nat option \<Rightarrow> (int \<Rightarrow> int) \<Rightarrow> nat \<Rightarrow> (string \<times> int \<times> nat option) list" where
  "created [] parent f n = []"
| "created (Sub sub # items) parent f n =
     created sub parent f n @ created items parent f (n + length (created sub parent f n))"
| "created (Entry title Unresolvable children # items) parent f n = created items parent f n"
| "created (Entry title (Resolves i) children # items) parent f n =
     (title, f i, parent) # created children (Some n) f (Suc n)
       @ created items parent f (Suc n + length (created children (Some n) f (Suc n)))"
| "created (Bad shown # items) parent f n = created items parent f n"

fun dropped :: "item list \<Rightarrow> string list" where
  "dropped [] = []"
| "dropped (Sub sub # items) = dropped sub @ dropped items"
| "dropped (Entry title Unresolvable children # items) = title # dropped items"
| "dropped (Entry title (Resolves i) children # items) = dropped children @ dropped items"
| "dropped (Bad shown # items) = dropped items"

section \<open>pdfinsert.py: per-file processing\<close>

definition INPUT_DIR :: path where
  "INPUT_DIR = ''pdfs''"

definition OUTPUT_DIR :: path where
  "OUTPUT_DIR = ''output''"

definition BACKUP_DIR :: path where
  "BACKUP_DIR = ''backup''"

definition MERGED_FILENAME :: string where
  "MERGED_FILENAME = ''merged_output.pdf''"

definition CM_TO_POINTS :: real where
  "CM_TO_POINTS = 28.3464567"

definition MARGIN_CM :: real where
  "MARGIN_CM = 1.5"

definition TOP_MARGIN_PTS :: real where
  "TOP_MARGIN_PTS = MARGIN_CM * CM_TO_POINTS"

definition BOTTOM_MARGIN_PTS :: real where
  "BOTTOM_MARGIN_PTS = MARGIN_CM * CM_TO_POINTS"

text \<open>\<open>directory.glob('*.pdf')\<close>: the files directly in the directory whose name ends
  in \<open>.pdf\<close>, in directory order. All paths of pdfinsert.py are relative to
  \<open>PROJECT_DIR\<close>.\<close>

definition glob_pdf :: "world \<Rightarrow> path \<Rightarrow> path list" where
  "glob_pdf s d =
     [p \<leftarrow> map fst (files s).
        startswith p (d @ ''/'') \<and> CHR ''/'' \<notin> set (drop (length d + 1) p) \<and> endswith p ''.pdf'']"

text \<open>What \<open>reader.outline\<close> gives for an outline that a writer wrote: the entries of one
  parent in the order of their creation, each with the page index it was created with and
  followed by the nested list of its children, if it has any. The nesting is at most as
  deep as the table is long.\<close>

fun read_outline :: "nat \<Rightarrow> (string \<times> int \<times> nat option) list \<Rightarrow> nat option \<Rightarrow> item list" where
  "read_outline 0 table parent = []"
| "read_outline (Suc depth) table parent =
     concat (map (\<lambda>h. Entry (fst (table ! h)) (Resolves (fst (snd (table ! h)))) [] #
                       (if read_outline depth table (Some h) = [] then []
                        else [Sub (read_outline depth table (Some h))]))
                 [h \<leftarrow> [0..<length table]. snd (snd (table ! h)) = parent])"

definition outline_as_read :: "(string \<times> int \<times> nat option) list \<Rightarrow> item list" where
  "outline_as_read table = read_outline (length table) table None"

definition written :: "writer \<Rightarrow> stored" where
  "written w = Pdf \<lparr>pages = wpages w, outline = outline_as_read (woutline w)\<rparr>"

text \<open>Lines 176-198 of \<open>add_page_numbers\<close>: the overlay of page \<open>i\<close> is the text
  \<open>"{i // 2 + 1} / {original_total_pages}"\<close>, right-aligned 30 points from the right and
  from the bottom, in the default font size 10. Reading the overlay back and merging it is
  taken to succeed.\<close>

fun number_loop :: "nat \<Rightarrow> nat \<Rightarrow> page list \<Rightarrow> error + page list" where
  "number_loop i original_total_pages [] = Inr []"
| "number_loop i original_total_pages (page # rest) =
     (case mediabox page of
        None \<Rightarrow> Inl MediaBoxError
      | Some (page_width, page_height) \<Rightarrow>
          (let current_original_page_num = i div 2 + 1;
               page_number_text = str_nat current_original_page_num @ '' / ''
                                    @ str_nat original_total_pages;
               x_coordinate = page_width - 30;
               y_coordinate = 30
           in case number_loop (Suc i) original_total_pages rest of
                Inl e \<Rightarrow> Inl e
              | Inr numbered \<Rightarrow>
                  Inr (page\<lparr>content := content page
                              @ [DrawRightString x_coordinate y_coordinate 10 page_number_text]\<rparr>
                       # numbered)))"

text \<open>The \<open>try\<close> block of \<open>add_page_numbers\<close> (lines 158-216).\<close>

definition add_page_numbers_try ::
  "path \<Rightarrow> path \<Rightarrow> item list \<Rightarrow> bool \<Rightarrow> world \<Rightarrow> (error + path) \<times> world" where
  "add_page_numbers_try input_pdf output_pdf original_outline_struct outline_source_reader s =
     (case PdfReader s input_pdf of
        Inl e \<Rightarrow> (Inl e, s)
      | Inr reader \<Rightarrow>
          (let total_pages_in_temp_file = length (pages reader);
               original_total_pages = total_pages_in_temp_file div 2;
               s1 = (if total_pages_in_temp_file mod 2 \<noteq> 0
                     then print (WarnOddPages (basename input_pdf) total_pages_in_temp_file
                                   original_total_pages) s
                     else if original_total_pages = 0 \<and> total_pages_in_temp_file > 0
                     then print (WarnZeroOriginalPages total_pages_in_temp_file) s
                     else s)
           in case number_loop 0 original_total_pages (pages reader) of
                Inl e \<Rightarrow> (Inl e, s1)
              | Inr numbered \<Rightarrow>
                  (let writer = \<lparr>wpages = numbered, woutline = []\<rparr>;
                       (writer', log) =
                         (if original_outline_struct \<noteq> [] \<and> outline_source_reader
                          then add_nested_outline original_outline_struct None (\<lambda>orig_idx. orig_idx * 2)
                                 (writer, printed s1 @ [InfoAddingBookmarks (basename output_pdf)])
                          else (writer, printed s1))
                   in (Inr output_pdf, write_file output_pdf (written writer') (s1\<lparr>printed := log\<rparr>)))))"

text \<open>\<open>add_page_numbers\<close> with its \<open>except\<close> block (lines 218-227): the intermediate file
  is copied to the output path and the result is \<open>None\<close>.\<close>

definition add_page_numbers ::
  "path \<Rightarrow> path \<Rightarrow> item list \<Rightarrow> bool \<Rightarrow> world \<Rightarrow> path option \<times> world" where
  "add_page_numbers input_pdf output_pdf original_outline_struct outline_source_reader s =
     (case add_page_numbers_try input_pdf output_pdf original_outline_struct
             outline_source_reader s of
        (Inr out, s') \<Rightarrow> (Some out, s')
      | (Inl e, s') \<Rightarrow>
          (let s1 = print (ErrAddPageNumbers input_pdf output_pdf) s'
           in (None,
               case copy2 input_pdf output_pdf s1 of
                 Inr s2 \<Rightarrow> print (InfoCopiedIntermediate output_pdf) s2
               | Inl copy_e \<Rightarrow> print ErrCopyIntermediate s1)))"

text \<open>Step 2 of \<open>process_pdf\<close> (lines 258-272): every page is put on a new page that is
  taller by the two margins and shifted up by the bottom margin.\<close>

fun add_margins :: "page list \<Rightarrow> error + page list" where
  "add_margins [] = Inr []"
| "add_margins (original_page # rest) =
     (case mediabox original_page of
        None \<Rightarrow> Inl MediaBoxError
      | Some (original_width, original_height) \<Rightarrow>
          (let new_height = original_height + TOP_MARGIN_PTS + BOTTOM_MARGIN_PTS;
               new_page_obj = \<lparr>mediabox = Some (original_width, new_height),
                               content = content original_page @ [Translate 0 BOTTOM_MARGIN_PTS]\<rparr>
           in case add_margins rest of
                Inl e \<Rightarrow> Inl e
              | Inr done \<Rightarrow> Inr (new_page_obj # done)))"

text \<open>Step 3 (lines 285-288): a square blank page after every page.\<close>

fun add_blank_pages :: "page list \<Rightarrow> error + page list" where
  "add_blank_pages [] = Inr []"
| "add_blank_pages (page_with_margin # rest) =
     (case mediabox page_with_margin of
        None \<Rightarrow> Inl MediaBoxError
      | Some (width, height) \<Rightarrow>
          (case add_blank_pages rest of
             Inl e \<Rightarrow> Inl e
           | Inr done \<Rightarrow>
               Inr (page_with_margin # \<lparr>mediabox = Some (width, width), content = []\<rparr> # done)))"

text \<open>The \<open>try\<close> block of \<open>process_pdf\<close> (lines 243-307). The result is the value of
  \<open>output_file\<close> at the end of the block and whether the block returned early.\<close>

definition process_pdf_try ::
  "path \<Rightarrow> path \<Rightarrow> path \<Rightarrow> world \<Rightarrow> (error + path option \<times> bool) \<times> world" where
  "process_pdf_try input_file output_dir backup_dir s =
     (let filename = basename input_file;
          output_file = slash output_dir filename;
          backup_file = slash backup_dir filename;
          temp_margin_file = slash output_dir (''temp_margin_'' @ filename);
          temp_blank_file = slash output_dir (''temp_blank_'' @ filename);
          s1 = mkdir backup_dir s
      in case copy2 input_file backup_file s1 of
           Inl e \<Rightarrow> (Inl e, s1)
         | Inr s2 \<Rightarrow>
             (let s3 = print (InfoProcessing input_file backup_file) s2
              in case PdfReader s3 input_file of
                   Inl e \<Rightarrow> (Inl e, s3)
                 | Inr original_input_reader \<Rightarrow>
                     (let original_outline_structure = outline original_input_reader;
                          original_page_count = length (pages original_input_reader)
                      in if original_page_count = 0
                         then (Inr (None, True), print (WarnEmptyFile filename) s3)
                         else
                           (case add_margins (pages original_input_reader) of
                              Inl e \<Rightarrow> (Inl e, s3)
                            | Inr margin_pages \<Rightarrow>
                                (let s4 = write_file temp_margin_file
                                            (Pdf \<lparr>pages = margin_pages, outline = []\<rparr>)
                                            (mkdir output_dir s3)
                                 in case PdfReader s4 temp_margin_file of
                                      Inl e \<Rightarrow> (Inl e, s4)
                                    | Inr margin_reader \<Rightarrow>
                                        (let pages_with_margins_count = length (pages margin_reader);
                                             s5 = (if pages_with_margins_count \<noteq> original_page_count
                                                   then print (WarnMarginCountMismatch original_page_count
                                                                 pages_with_margins_count) s4
                                                   else s4)
                                         in case add_blank_pages (pages margin_reader) of
                                              Inl e \<Rightarrow> (Inl e, s5)
                                            | Inr blank_pages \<Rightarrow>
                                                (let s6 = write_file temp_blank_file
                                                            (Pdf \<lparr>pages = blank_pages, outline = []\<rparr>) s5
                                                 in case add_page_numbers temp_blank_file output_file
                                                           original_outline_structure True s6 of
                                                      (Some processed_output_file, s7) \<Rightarrow>
                                                        (Inr (Some output_file, False),
                                                         print (InfoDone output_file) s7)
                                                    | (None, s7) \<Rightarrow>
                                                        (Inr (None, False),
                                                         print (ErrNoFinalFile filename) s7))))))))"

text \<open>The \<open>finally\<close> block of \<open>process_pdf\<close> (lines 326-331), for one temporary file.\<close>

definition remove_temp_file :: "path \<Rightarrow> world \<Rightarrow> world" where
  "remove_temp_file temp_file s =
     (if is_file s temp_file
      then (case unlink temp_file s of
              Inl e \<Rightarrow> print (WarnTempCleanup (basename temp_file)) s
            | Inr s' \<Rightarrow> s')
      else s)"

definition process_pdf :: "path \<Rightarrow> path \<Rightarrow> path \<Rightarrow> world \<Rightarrow> path option \<times> world" where
  "process_pdf input_file output_dir backup_dir s =
     (let filename = basename input_file;
          temp_margin_file = slash output_dir (''temp_margin_'' @ filename);
          temp_blank_file = slash output_dir (''temp_blank_'' @ filename);
          (output_file, after) =
            (case process_pdf_try input_file output_dir backup_dir s of
               (Inr (output_file, returned), s') \<Rightarrow> (output_file, s')
             | (Inl e, s') \<Rightarrow>
                 (let s1 = print (ErrProcessing input_file e) s';
                      s2 = mkdir output_dir s1;
                      dest_path = slash output_dir filename
                  in (None,
                      case copy2 input_file dest_path s2 of
                        Inr s3 \<Rightarrow> print (InfoCopiedOriginal dest_path) s3
                      | Inl copy_e \<Rightarrow> print ErrCopyOriginal s2)))
      in (output_file, remove_temp_file temp_blank_file (remove_temp_file temp_margin_file after)))"

section \<open>pdfinsert.py: merge and batch\<close>

text \<open>The loop of \<open>merge_pdfs_with_bookmarks\<close> (lines 370-418) over the sorted files:
  \<open>idx\<close> counts the files, the state is the merged writer, the page offset, the number
  of files merged and the world. A file that cannot be read is reported and skipped.\<close>

fun merge_loop ::
  "nat \<Rightarrow> nat \<Rightarrow> path list \<Rightarrow> writer \<times> nat \<times> nat \<times> world \<Rightarrow> writer \<times> nat \<times> nat \<times> world" where
  "merge_loop idx total_files_to_merge [] st = st"
| "merge_loop idx total_files_to_merge (processed_pdf_path # rest)
       (merged_writer, current_page_in_merged_pdf, files_merged_count, s) =
     merge_loop (Suc idx) total_files_to_merge rest
       (let s1 = print (InfoReading (idx + 1) total_files_to_merge processed_pdf_path) s
        in case PdfReader s1 processed_pdf_path of
             Inl e \<Rightarrow>
               (merged_writer, current_page_in_merged_pdf, files_merged_count,
                print (ErrMergeFile (idx + 1) total_files_to_merge processed_pdf_path e) s1)
           | Inr reader_processed \<Rightarrow>
               (let num_pages = length (pages reader_processed)
                in if num_pages = 0
                   then (merged_writer, current_page_in_merged_pdf, files_merged_count,
                         print (InfoSkipEmpty (idx + 1) total_files_to_merge processed_pdf_path) s1)
                   else
                     (let bookmark_title = stem processed_pdf_path;
                          parent_bookmark = length (woutline merged_writer);
                          w1 = merged_writer\<lparr>woutline := woutline merged_writer
                                 @ [(bookmark_title, int current_page_in_merged_pdf, None)]\<rparr>;
                          processed_outline_data = outline reader_processed;
                          (w2, log) =
                            (if processed_outline_data \<noteq> []
                             then add_nested_outline processed_outline_data (Some parent_bookmark)
                                    (\<lambda>idx_in_processed. idx_in_processed + int current_page_in_merged_pdf)
                                    (w1, printed s1 @ [InfoFoundBookmarks])
                             else (w1, printed s1 @ [InfoNoBookmarks (basename processed_pdf_path)]));
                          w3 = w2\<lparr>wpages := wpages w2 @ pages reader_processed\<rparr>;
                          page_increment = num_pages;
                          next_page = current_page_in_merged_pdf + page_increment
                      in (w3, next_page, files_merged_count + 1,
                          s1\<lparr>printed := log @ [InfoAddingPages num_pages,
                                InfoMergedFile (idx + 1) total_files_to_merge
                                  (basename processed_pdf_path) page_increment next_page]\<rparr>))))"

definition merge_pdfs_with_bookmarks :: "path \<Rightarrow> string \<Rightarrow> world \<Rightarrow> world" where
  "merge_pdfs_with_bookmarks output_dir final_pdf_filename s =
     (let s1 = print (InfoMergeStart output_dir) s;
          processed_pdf_files =
            sort_key get_sort_key
              [f \<leftarrow> glob_pdf s1 output_dir. is_file s1 f \<and> \<not> startswith (basename f) ''temp_''];
          pdf_file_names = map basename processed_pdf_files
      in if processed_pdf_files = [] then print (WarnNothingToMerge output_dir) s1
         else
           (let display_limit = 5;
                files_to_merge_display =
                  take display_limit pdf_file_names
                  @ (if length pdf_file_names > display_limit then [''...''] else []);
                s2 = print (InfoMerging (length processed_pdf_files) files_to_merge_display) s1;
                (merged_writer, current_page_in_merged_pdf, files_merged_count, s3) =
                  merge_loop 0 (length processed_pdf_files) processed_pdf_files
                    (\<lparr>wpages = [], woutline = []\<rparr>, 0, 0, s2)
            in if current_page_in_merged_pdf = 0 then print ErrNoPagesMerged s3
               else print (InfoMergeDone final_pdf_filename files_merged_count
                             (length processed_pdf_files) current_page_in_merged_pdf)
                      (write_file final_pdf_filename (written merged_writer) s3)))"

text \<open>The loop of \<open>process_all_pdfs\<close> (lines 458-464).\<close>

fun process_loop :: "path list \<Rightarrow> nat \<times> string list \<times> world \<Rightarrow> nat \<times> string list \<times> world" where
  "process_loop [] st = st"
| "process_loop (pdf_file # rest) (processed_files_count, failed_files, s) =
     process_loop rest
       (case process_pdf pdf_file OUTPUT_DIR BACKUP_DIR s of
          (Some output_file_path, s') \<Rightarrow>
            (if is_file s' output_file_path
             then (processed_files_count + 1, failed_files, s')
             else (processed_files_count, failed_files @ [basename pdf_file], s'))
        | (None, s') \<Rightarrow> (processed_files_count, failed_files @ [basename pdf_file], s'))"

definition process_all_pdfs :: "world \<Rightarrow> world" where
  "process_all_pdfs s =
     (let s1 = print (InfoScan INPUT_DIR) (mkdir BACKUP_DIR (mkdir OUTPUT_DIR (mkdir INPUT_DIR s)));
          pdf_files = glob_pdf s1 INPUT_DIR
      in if pdf_files = [] then print (WarnNoPdfFound INPUT_DIR) s1
         else
           (let s2 = print (InfoFound (length pdf_files)) s1;
                (processed_files_count, failed_files, s3) = process_loop pdf_files (0, [], s2);
                s4 = print (Summary processed_files_count (length failed_files)) s3;
                s5 = (if failed_files \<noteq> [] then print (FailedList failed_files) s4 else s4)
            in if processed_files_count > 0
               then merge_pdfs_with_bookmarks OUTPUT_DIR MERGED_FILENAME s5
               else print InfoSkipMerge s5))"

section \<open>pdf\_fill.py: numbering, per-file processing and merge\<close>

text \<open>The inner \<open>while\<close> of \<open>add_page_numbers\<close> (lines 118-125): it moves to the next
  entry of the metadata while the global page index lies past the current file.\<close>

fun advance ::
  "nat \<Rightarrow> (string \<times> nat) list \<Rightarrow> string option \<Rightarrow> nat \<Rightarrow> nat
     \<Rightarrow> (string \<times> nat) list \<times> string option \<times> nat \<times> nat \<times> event list" where
  "advance global_page_idx file_info_iter None current_file_total_pages start_idx =
     (file_info_iter, None, current_file_total_pages, start_idx, [])"
| "advance global_page_idx file_info_iter (Some current_file_name) current_file_total_pages
       start_idx =
     (if global_page_idx \<ge> start_idx + current_file_total_pages
      then (case file_info_iter of
              [] \<Rightarrow> ([], None, 0, start_idx + current_file_total_pages,
                     [WarnMetadataExhausted (global_page_idx + 1)])
            | (next_name, next_total) # remaining \<Rightarrow>
                advance global_page_idx remaining (Some next_name) next_total
                  (start_idx + current_file_total_pages))
      else (file_info_iter, Some current_file_name, current_file_total_pages, start_idx, []))"

text \<open>The loop over the global page indices (lines 113-195). \<open>merge_mode\<close> says that
  \<open>input_files_metadata\<close> was given. \<open>writer.pages[global_page_idx]\<close> raises IndexError
  past the end of the writer's pages.\<close>

fun fill_number_loop ::
  "(string \<Rightarrow> real \<Rightarrow> real) \<Rightarrow> nat list \<Rightarrow> nat \<Rightarrow> bool \<Rightarrow> (string \<times> nat) list
     \<Rightarrow> string option \<Rightarrow> nat \<Rightarrow> nat \<Rightarrow> page list \<Rightarrow> event list
     \<Rightarrow> (error + page list) \<times> event list" where
  "fill_number_loop string_width [] total_global_pages merge_mode file_info_iter
       current_file_name current_file_total_pages start_idx writer_pages printed_so_far =
     (Inr writer_pages, printed_so_far)"
| "fill_number_loop string_width (global_page_idx # later) total_global_pages merge_mode
       file_info_iter current_file_name current_file_total_pages start_idx writer_pages
       printed_so_far =
     (let (it, name, file_total, start, ev1) =
            (if merge_mode
             then advance global_page_idx file_info_iter current_file_name
                    current_file_total_pages start_idx
             else (file_info_iter, current_file_name, current_file_total_pages, start_idx, []));
          page_in_original_file =
            (if merge_mode
             then (if name \<noteq> None then (global_page_idx - start) + 1 else global_page_idx + 1)
             else global_page_idx + 1);
          page_text_part2 = ''[ '' @ str_nat (global_page_idx + 1) @ ''/''
                              @ str_nat total_global_pages @ '' ]'';
          simplified = (name = None \<or> name = Some [] \<or> file_total = 0);
          page_text_part1 =
            (if simplified then []
             else ''[ '' @ the name @ '' '' @ str_nat page_in_original_file @ ''/''
                    @ str_nat file_total @ '' ]'');
          ev2 = (if simplified then [WarnSimplifiedLabel (global_page_idx + 1)] else []);
          (drawn, ev3) = draw_label string_width page_text_part1 page_text_part2;
          printed_now = printed_so_far @ ev1 @ ev2 @ ev3
      in if global_page_idx < length writer_pages
         then fill_number_loop string_width later total_global_pages merge_mode it name
                file_total start
                (writer_pages[global_page_idx :=
                   (writer_pages ! global_page_idx)
                     \<lparr>content := content (writer_pages ! global_page_idx) @ drawn\<rparr>])
                printed_now
         else (Inl IndexError, printed_now))"

text \<open>\<open>add_page_numbers\<close> of pdf\_fill.py on the pages of a writer. An absent
  \<open>input_files_metadata\<close> is the empty list and an absent \<open>single_file_name\<close> the empty
  string: the function only tests their truth value.\<close>

definition fill_add_page_numbers ::
  "(string \<Rightarrow> real \<Rightarrow> real) \<Rightarrow> page list \<Rightarrow> nat \<Rightarrow> (string \<times> nat) list \<Rightarrow> string
     \<Rightarrow> (error + page list) \<times> event list" where
  "fill_add_page_numbers string_width writer_pages total_global_pages input_files_metadata
       single_file_name =
     (case input_files_metadata of
        (current_file_name, current_file_total_pages) # file_info_iter \<Rightarrow>
          fill_number_loop string_width [0..<total_global_pages] total_global_pages True
            file_info_iter (Some current_file_name) current_file_total_pages 0 writer_pages []
      | [] \<Rightarrow>
          (if single_file_name \<noteq> []
           then fill_number_loop string_width [0..<total_global_pages] total_global_pages False
                  [] (Some single_file_name) total_global_pages 0 writer_pages []
           else (Inr writer_pages, [WarnNotEnoughInfo])))"

fun resize_pages :: "page list \<Rightarrow> error + page list" where
  "resize_pages [] = Inr []"
| "resize_pages (page # rest) =
     (case resize_and_position_page page of
        Inl e \<Rightarrow> Inl e
      | Inr modified_page \<Rightarrow>
          (case resize_pages rest of
             Inl e \<Rightarrow> Inl e
           | Inr done \<Rightarrow> Inr (modified_page # done)))"

definition prints :: "event list \<Rightarrow> world \<Rightarrow> world" where
  "prints ev s = s\<lparr>printed := printed s @ ev\<rparr>"

text \<open>\<open>process_pdf\<close> of pdf\_fill.py. An exception leaves the function; the pages added to
  a writer do not bring the outline of their document with them.\<close>

definition fill_process_pdf ::
  "(string \<Rightarrow> real \<Rightarrow> real) \<Rightarrow> path \<Rightarrow> path \<Rightarrow> bool \<Rightarrow> world \<Rightarrow> (error + path) \<times> world" where
  "fill_process_pdf string_width input_path output_path add_nums s =
     (case PdfReader s input_path of
        Inl e \<Rightarrow> (Inl e, s)
      | Inr reader \<Rightarrow>
          (case resize_pages (pages reader) of
             Inl e \<Rightarrow> (Inl e, s)
           | Inr resized \<Rightarrow>
               (let num_pages = length (pages reader);
                    base_name = splitext_root (basename input_path);
                    (numbered, ev) =
                      (if add_nums
                       then fill_add_page_numbers string_width resized num_pages [] base_name
                       else (Inr resized, []));
                    s1 = prints ev s
                in case numbered of
                     Inl e \<Rightarrow> (Inl e, s1)
                   | Inr final_pages \<Rightarrow>
                       (Inr output_path,
                        write_file output_path (Pdf \<lparr>pages = final_pages, outline = []\<rparr>) s1))))"

text \<open>The first loop of \<open>merge_pdfs\<close> (lines 227-235). The lists built so far are part of
  the result also when an exception ends the loop, since the \<open>finally\<close> block reads
  \<open>processed_files\<close>.\<close>

fun preprocess_loop ::
  "(string \<Rightarrow> real \<Rightarrow> real) \<Rightarrow> path list \<Rightarrow> path list \<times> nat list \<times> nat \<Rightarrow> world
     \<Rightarrow> error option \<times> (path list \<times> nat list \<times> nat) \<times> world" where
  "preprocess_loop string_width [] acc s = (None, acc, s)"
| "preprocess_loop string_width (pdf_file # rest) (processed_files, page_counts, total_pages) s =
     (let tmp_output = ''tmp_'' @ basename pdf_file
      in case fill_process_pdf string_width pdf_file tmp_output False s of
           (Inl e, s1) \<Rightarrow> (Some e, (processed_files, page_counts, total_pages), s1)
         | (Inr out, s1) \<Rightarrow>
             (case PdfReader s1 tmp_output of
                Inl e \<Rightarrow> (Some e, (processed_files @ [tmp_output], page_counts, total_pages), s1)
              | Inr reader_temp \<Rightarrow>
                  (let page_count = length (pages reader_temp)
                   in preprocess_loop string_width rest
                        (processed_files @ [tmp_output], page_counts @ [page_count],
                         total_pages + page_count) s1)))"

text \<open>The second loop (lines 238-247) over the processed files, each with the input file
  and the page count of the same index.\<close>

fun concat_loop :: "(path \<times> path \<times> nat) list \<Rightarrow> nat \<Rightarrow> writer \<Rightarrow> world \<Rightarrow> error + writer" where
  "concat_loop [] current_page writer s = Inr writer"
| "concat_loop ((input_file, processed_file_path, page_count) # rest) current_page writer s =
     (let bookmark_name = splitext_root (basename input_file);
          w1 = writer\<lparr>woutline := woutline writer @ [(bookmark_name, int current_page, None)]\<rparr>
      in case PdfReader s processed_file_path of
           Inl e \<Rightarrow> Inl e
         | Inr reader_processed \<Rightarrow>
             concat_loop rest (current_page + page_count)
               (w1\<lparr>wpages := wpages w1 @ pages reader_processed\<rparr>) s)"

text \<open>The \<open>finally\<close> block (lines 263-268).\<close>

fun remove_tmp_files :: "path list \<Rightarrow> world \<Rightarrow> world" where
  "remove_tmp_files [] s = s"
| "remove_tmp_files (pf_path # rest) s =
     remove_tmp_files rest
       (if is_file s pf_path
        then (case unlink pf_path s of
                Inl e \<Rightarrow> print (WarnTmpRemove pf_path) s
              | Inr s' \<Rightarrow> s')
        else s)"

definition merge_pdfs ::
  "(string \<Rightarrow> real \<Rightarrow> real) \<Rightarrow> path list \<Rightarrow> path \<Rightarrow> world \<Rightarrow> error option \<times> world" where
  "merge_pdfs string_width input_files output_path s =
     (case preprocess_loop string_width input_files ([], [], 0) s of
        (Some e, (processed_files, page_counts, total_pages), s1) \<Rightarrow>
          (Some e, remove_tmp_files processed_files s1)
      | (None, (processed_files, page_counts, total_pages), s1) \<Rightarrow>
          (case concat_loop (zip input_files (zip processed_files page_counts)) 0
                  \<lparr>wpages = [], woutline = []\<rparr> s1 of
             Inl e \<Rightarrow> (Some e, remove_tmp_files processed_files s1)
           | Inr writer \<Rightarrow>
               (let files_metadata =
                      map (\<lambda>(input_file_path, num_p).
                             (splitext_root (basename input_file_path), num_p))
                          (zip input_files page_counts)
                in case fill_add_page_numbers string_width (wpages writer) total_pages
                          files_metadata [] of
                     (Inl e, ev) \<Rightarrow> (Some e, remove_tmp_files processed_files (prints ev s1))
                   | (Inr numbered, ev) \<Rightarrow>
                       (None,
                        remove_tmp_files processed_files
                          (write_file output_path (written (writer\<lparr>wpages := numbered\<rparr>))
                             (prints ev s1))))))"

section \<open>pdf\_fill.py: main\<close>

definition os_join :: "path \<Rightarrow> path \<Rightarrow> path" where
  "os_join a b =
     (if startswith b ''/'' then b
      else if a = [] \<or> endswith a ''/'' then a @ b
      else a @ ''/'' @ b)"

definition os_dirname :: "path \<Rightarrow> path" where
  "os_dirname p =
     (let head = rev (dropWhile (\<lambda>c. c \<noteq> CHR ''/'') (rev p))
      in if head \<noteq> [] \<and> (\<exists>c\<in>set head. c \<noteq> CHR ''/'')
         then rev (dropWhile (\<lambda>c. c = CHR ''/'') (rev head)) else head)"

fun split_slash :: "string \<Rightarrow> string list" where
  "split_slash [] = [[]]"
| "split_slash (c # cs) =
     (if c = CHR ''/'' then [] # split_slash cs
      else (case split_slash cs of
              [] \<Rightarrow> [[c]]
            | part # parts \<Rightarrow> (c # part) # parts))"

fun join_slash :: "string list \<Rightarrow> string" where
  "join_slash [] = []"
| "join_slash [part] = part"
| "join_slash (part # parts) = part @ ''/'' @ join_slash parts"

definition normpath :: "path \<Rightarrow> path" where
  "normpath p =
     (if p = [] then ''.''
      else
        (let initial_slashes =
               (if startswith p ''/''
                then (if startswith p ''//'' \<and> \<not> startswith p ''///'' then 2 else 1)
                else (0::nat));
             new_comps =
               foldl (\<lambda>new_comps part.
                        if part = [] \<or> part = ''.'' then new_comps
                        else if part \<noteq> ''..'' \<or> (initial_slashes = 0 \<and> new_comps = [])
                                \<or> (new_comps \<noteq> [] \<and> last new_comps = ''..'')
                        then new_comps @ [part]
                        else if new_comps \<noteq> [] then butlast new_comps
                        else new_comps)
                     [] (split_slash p);
             joined = replicate initial_slashes (CHR ''/'') @ join_slash new_comps
         in if joined = [] then ''.'' else joined))"

text \<open>\<open>glob.glob(os.path.join(directory, "*.pdf"))\<close>, for a directory name without
  wildcard characters: the files of the directory whose name ends in \<open>.pdf\<close> and does not
  start with a dot, each as the directory joined with the name.\<close>

definition glob_dir_pdf :: "world \<Rightarrow> path \<Rightarrow> path list" where
  "glob_dir_pdf s directory =
     (let dirname = os_dirname (os_join directory ''*.pdf'');
          front = os_join dirname []
      in [p \<leftarrow> map fst (files s).
            startswith p front \<and> CHR ''/'' \<notin> set (drop (length front) p)
            \<and> endswith (drop (length front) p) ''.pdf''
            \<and> \<not> startswith (drop (length front) p) ''.''])"

record args =
  input_arg :: string
  output_arg :: "string option"
  no_merge :: bool

text \<open>Lines 279-293 of \<open>main\<close>: the input files, or the message printed before \<open>main\<close>
  returns without them.\<close>

definition find_input_files :: "args \<Rightarrow> world \<Rightarrow> event + path list \<times> event" where
  "find_input_files a s =
     (if isdir s (input_arg a)
      then (let input_files = sort (glob_dir_pdf s (input_arg a))
            in if input_files = [] then Inl (ErrNoPdfInDir (input_arg a))
               else Inr (input_files, InfoFoundPdf (length input_files)))
      else if \<not> exists_path s (input_arg a) then Inl (ErrInputMissing (input_arg a))
      else if \<not> endswith (input_arg a) ''.pdf'' then Inl ErrNotPdf
      else Inr ([input_arg a], InfoSingleFile (input_arg a)))"

text \<open>Lines 310-319: the loop that processes every file on its own. An exception leaves
  \<open>main\<close>.\<close>

fun each_file_loop ::
  "(string \<Rightarrow> real \<Rightarrow> real) \<Rightarrow> path \<Rightarrow> nat \<Rightarrow> path list \<Rightarrow> world \<Rightarrow> error option \<times> world" where
  "each_file_loop string_width output_path n [] s = (None, s)"
| "each_file_loop string_width output_path n (input_file # rest) s =
     (let base_name = splitext_root (basename input_file);
          output_file =
            (if endswith output_path ''/''
             then os_join output_path (base_name @ ''_processed.pdf'')
             else if n = 1 then output_path
             else output_path @ ''/'' @ base_name @ ''_processed.pdf'');
          s1 = print (InfoProcessingFile (basename input_file)) s
      in case fill_process_pdf string_width input_file output_file True s1 of
           (Inl e, s2) \<Rightarrow> (Some e, s2)
         | (Inr out, s2) \<Rightarrow>
             each_file_loop string_width output_path n rest
               (print (InfoDoneFile (basename output_file)) s2))"

definition fill_main ::
  "(string \<Rightarrow> real \<Rightarrow> real) \<Rightarrow> args \<Rightarrow> world \<Rightarrow> error option \<times> world" where
  "fill_main string_width a s =
     (case find_input_files a s of
        Inl message \<Rightarrow> (None, print message s)
      | Inr (input_files, found) \<Rightarrow>
          (let s1 = print found s;
               output_path =
                 (case output_arg a of
                    None \<Rightarrow>
                      (if length input_files = 1 \<and> \<not> no_merge a
                       then ''./output/'' @ splitext_root (basename (hd input_files))
                              @ ''_processed.pdf''
                       else ''./output/'')
                  | Some given \<Rightarrow> given);
               output_dir = (if endswith output_path ''.pdf'' then os_dirname output_path
                             else output_path);
               s2 = (if output_dir \<noteq> [] \<and> \<not> exists_path s1 output_dir
                     then print (InfoMkdir output_dir) (mkdir output_dir s1) else s1)
           in if no_merge a \<or> length input_files = 1
              then each_file_loop string_width output_path (length input_files) input_files s2
              else
                (let output_file =
                       (if endswith output_path ''/''
                        then os_join output_path
                               (basename (normpath (input_arg a)) @ ''_merged.pdf'')
                        else output_path);
                     s3 = print (InfoMergingFiles (length input_files)) s2
                 in case merge_pdfs string_width input_files output_file s3 of
                      (Some e, s4) \<Rightarrow> (Some e, s4)
                    | (None, s4) \<Rightarrow>
                        (None, print (InfoBookmarksAdded (length input_files))
                                 (print (InfoMergedOutput output_file) s4)))))"

section \<open>Page offsets\<close>

text \<open>The values that the page counter of a merge loop takes: it starts at \<open>start\<close> and
  grows by the page count of each file in turn, so the entry for a file is the number of
  pages of the files before it.\<close>

fun offsets :: "nat \<Rightarrow> nat list \<Rightarrow> nat list" where
  "offsets start [] = []"
| "offsets start (n # ns) = start # offsets (start + n) ns"

section \<open>Properties\<close>

lemma shrink_loop_inv:
  "shrink_loop f m s (f s) = (s', w') \<Longrightarrow>
     \<exists>k::nat. s' = s - real k / 2 \<and> w' = f s'
        \<and> (\<forall>j<k. f (s - real j / 2) > m \<and> s - real j / 2 > min_font_size_part1)
        \<and> \<not> (w' > m \<and> s' > min_font_size_part1)"
proof (induction f m s "f s" arbitrary: s' w' rule: shrink_loop.induct)
  case (1 f m s)
  show ?case
  proof (cases "f s > m \<and> s > min_font_size_part1")
    case False
    with "1.prems" have "s' = s" "w' = f s"
      by (auto simp add: shrink_loop.simps[of f m s])
    with False show ?thesis
      by (intro exI[of _ 0]) simp
  next
    case True
    with "1.prems" have run: "shrink_loop f m (s - 0.5) (f (s - 0.5)) = (s', w')"
      by (simp add: shrink_loop.simps[of f m s])
    from "1.hyps"[OF True run] obtain k :: nat where k:
      "s' = s - 0.5 - real k / 2" "w' = f s'"
      "\<forall>j<k. f (s - 0.5 - real j / 2) > m \<and> s - 0.5 - real j / 2 > min_font_size_part1"
      "\<not> (w' > m \<and> s' > min_font_size_part1)"
      by blast
    have shift: "s - 0.5 - real j / 2 = s - real (Suc j) / 2" for j
      by (simp add: add_divide_distrib)
    have "\<forall>j<Suc k. f (s - real j / 2) > m \<and> s - real j / 2 > min_font_size_part1"
    proof (intro allI impI)
      fix j assume "j < Suc k"
      show "f (s - real j / 2) > m \<and> s - real j / 2 > min_font_size_part1"
      proof (cases j)
        case 0
        with True show ?thesis by simp
      next
        case (Suc i)
        with \<open>j < Suc k\<close> have "i < k" by simp
        with k(3) have "f (s - 0.5 - real i / 2) > m \<and> s - 0.5 - real i / 2 > min_font_size_part1"
          by blast
        then show ?thesis
          unfolding shift Suc .
      qed
    qed
    moreover have "s' = s - real (Suc k) / 2"
      using k(1) unfolding shift .
    ultimately show ?thesis
      using k(2) k(4) by blast
  qed
qed

text \<open>
  Claim C4. For every source page whose media box has a nonzero width, the page transformer
  scales both axes by the same factor, A4 width / source width, so that scaled height over
  scaled width equals source height over source width; it translates vertically by
  A4 height - scaled height - A4 height * margin ratio, and that offset is used unchanged
  and is negative exactly when the scaled content is taller than the space below the margin.
\<close>

theorem resize_and_position_page_scale_offset:
  assumes "mediabox pg = Some (w, h)" and "w \<noteq> 0"
  shows "resize_and_position_page pg
           = Inr (pg\<lparr>content := content pg @
                      [Scale (fst A4 / w) (fst A4 / w),
                       Translate 0 (snd A4 - h * (fst A4 / w) - snd A4 * TOP_MARGIN_RATIO)],
                    mediabox := Some A4\<rparr>)
       \<and> (h * (fst A4 / w)) / (w * (fst A4 / w)) = h / w
       \<and> (h * (fst A4 / w) > snd A4 - snd A4 * TOP_MARGIN_RATIO
            \<longrightarrow> snd A4 - h * (fst A4 / w) - snd A4 * TOP_MARGIN_RATIO < 0)"
proof -
  have nz: "fst A4 \<noteq> 0"
    by (simp add: A4_def mm_def)
  have run: "resize_and_position_page pg
           = Inr (pg\<lparr>content := content pg @
                      [Scale (fst A4 / w) (fst A4 / w),
                       Translate 0 (snd A4 - h * (fst A4 / w) - snd A4 * TOP_MARGIN_RATIO)],
                    mediabox := Some A4\<rparr>)"
    using assms by (simp add: resize_and_position_page_def Let_def split_beta)
  have ratio: "(h * (fst A4 / w)) / (w * (fst A4 / w)) = h / w"
    using nz assms(2) by simp
  have neg: "h * (fst A4 / w) > snd A4 - snd A4 * TOP_MARGIN_RATIO
            \<longrightarrow> snd A4 - h * (fst A4 / w) - snd A4 * TOP_MARGIN_RATIO < 0"
    by linarith
  from run ratio neg show ?thesis
    by blast
qed

theorem resize_and_position_page_scale_offset_witness:
  "resize_and_position_page \<lparr>mediabox = Some (420 * mm, 1188 * mm), content = [Source ''p'']\<rparr>
     = Inr \<lparr>mediabox = Some A4,
            content = [Source ''p'', Scale (1 / 2) (1 / 2), Translate 0 (- (3267 / 10) * mm)]\<rparr>"
  using resize_and_position_page_scale_offset
          [of "\<lparr>mediabox = Some (420 * mm, 1188 * mm), content = [Source ''p'']\<rparr>"
              "420 * mm" "1188 * mm"]
  by (simp add: A4_def mm_def TOP_MARGIN_RATIO_def)

text \<open>
  Claim C5. For a two-segment label (a non-empty first segment), the second segment is
  drawn at the base size, right-anchored: it starts at A4 width - its width - right margin.
  The first segment's size starts at the base size and goes down in steps of 0.5 (k steps,
  at most 6) while its width exceeds the available width (start of the second segment minus
  the gap minus the left margin): every size tried before the final one overflowed. At the
  final size either the first segment fits and nothing is logged, or the size is the 7pt
  floor, the segment still overflows and one warning is logged. Both segments are drawn in
  either case.
\<close>

theorem draw_label_two_segments:
  assumes "p1 \<noteq> []"
  shows "\<exists>k size warned. k \<le> (6::nat) \<and> size = base_font_size - real k / 2
       \<and> (\<forall>j<k. sw p1 (base_font_size - real j / 2)
                   > fst A4 - sw p2 base_font_size - right_margin_part2
                       - gap_between_parts - left_margin_part1)
       \<and> draw_label sw p1 p2
           = ([DrawString left_margin_part1 y_position size p1,
               DrawString (fst A4 - sw p2 base_font_size - right_margin_part2) y_position
                 base_font_size p2], warned)
       \<and> ((sw p1 size \<le> fst A4 - sw p2 base_font_size - right_margin_part2
                               - gap_between_parts - left_margin_part1 \<and> warned = [])
          \<or> (size = min_font_size_part1
              \<and> sw p1 size > fst A4 - sw p2 base_font_size - right_margin_part2
                               - gap_between_parts - left_margin_part1
              \<and> warned = [WarnLabelTooLong (take 30 p1)]))"
proof -
  define avail where
    "avail = fst A4 - sw p2 base_font_size - right_margin_part2
               - gap_between_parts - left_margin_part1"
  obtain s' w' where run: "shrink_loop (sw p1) avail base_font_size (sw p1 base_font_size) = (s', w')"
    by (cases "shrink_loop (sw p1) avail base_font_size (sw p1 base_font_size)") blast
  from shrink_loop_inv[OF run] obtain k :: nat where k:
    "s' = base_font_size - real k / 2" "w' = sw p1 s'"
    "\<forall>j<k. sw p1 (base_font_size - real j / 2) > avail
           \<and> base_font_size - real j / 2 > min_font_size_part1"
    "\<not> (w' > avail \<and> s' > min_font_size_part1)"
    by blast
  have k6: "k \<le> 6"
  proof (rule ccontr)
    assume "\<not> k \<le> 6"
    then have "6 < k" by simp
    with k(3) have "base_font_size - real (6::nat) / 2 > min_font_size_part1" by blast
    then show False by (simp add: base_font_size_def min_font_size_part1_def)
  qed
  then have ge: "s' \<ge> min_font_size_part1"
    using k(1) by (simp add: base_font_size_def min_font_size_part1_def)
  have label: "draw_label sw p1 p2
           = ([DrawString left_margin_part1 y_position s' p1,
               DrawString (fst A4 - sw p2 base_font_size - right_margin_part2) y_position
                 base_font_size p2],
              if w' > avail \<and> s' \<le> min_font_size_part1
              then [WarnLabelTooLong (take 30 p1)] else [])"
    using assms run by (simp add: draw_label_def Let_def avail_def)
  show ?thesis
  proof (cases "w' > avail")
    case False
    with label k k6 show ?thesis
      unfolding avail_def
      by (intro exI[of _ k] exI[of _ s'] exI[of _ "[]"]) simp
  next
    case True
    with k(4) ge have "s' = min_font_size_part1" by simp
    with True label k k6 show ?thesis
      unfolding avail_def
      by (intro exI[of _ k] exI[of _ s'] exI[of _ "[WarnLabelTooLong (take 30 p1)]"]) simp
  qed
qed

theorem draw_label_two_segments_witness:
  "''[ chapter-one 11/12 ]'' \<noteq> []
   \<and> (\<exists>k size warned. k \<le> (6::nat) \<and> size = base_font_size - real k / 2
       \<and> (\<forall>j<k. (\<lambda>t s. real (length t) * s * 2) ''[ chapter-one 11/12 ]'' (base_font_size - real j / 2)
                   > fst A4 - (\<lambda>t s. real (length t) * s * 2) ''[ 1/12 ]'' base_font_size - right_margin_part2
                       - gap_between_parts - left_margin_part1)
       \<and> draw_label (\<lambda>t s. real (length t) * s * 2) ''[ chapter-one 11/12 ]'' ''[ 1/12 ]''
           = ([DrawString left_margin_part1 y_position size ''[ chapter-one 11/12 ]'',
               DrawString (fst A4 - (\<lambda>t s. real (length t) * s * 2) ''[ 1/12 ]'' base_font_size - right_margin_part2) y_position
                 base_font_size ''[ 1/12 ]''], warned)
       \<and> (((\<lambda>t s. real (length t) * s * 2) ''[ chapter-one 11/12 ]'' size \<le> fst A4 - (\<lambda>t s. real (length t) * s * 2) ''[ 1/12 ]'' base_font_size - right_margin_part2
                               - gap_between_parts - left_margin_part1 \<and> warned = [])
          \<or> (size = min_font_size_part1
              \<and> (\<lambda>t s. real (length t) * s * 2) ''[ chapter-one 11/12 ]'' size > fst A4 - (\<lambda>t s. real (length t) * s * 2) ''[ 1/12 ]'' base_font_size - right_margin_part2
                               - gap_between_parts - left_margin_part1
              \<and> warned = [WarnLabelTooLong (take 30 ''[ chapter-one 11/12 ]'')])))"
  using draw_label_two_segments [of "''[ chapter-one 11/12 ]''" "\<lambda>t s. real (length t) * s * 2" "''[ 1/12 ]''"]
  by simp

lemma add_nested_outline_append:
  "add_nested_outline (xs @ ys) par f st = add_nested_outline ys par f (add_nested_outline xs par f st)"
  by (induction xs par f st rule: add_nested_outline.induct) (simp_all add: Let_def)

lemma add_nested_outline_created:
  "woutline (fst (add_nested_outline items par f st))
     = woutline (fst st) @ created items par f (length (woutline (fst st)))"
proof (induction items par f st rule: add_nested_outline.induct)
  case (4 title source_page_index children source_items target_parent page_idx_transform_func st)
  show ?case
  proof (cases "children = []")
    case True
    with "4.IH"(2)[OF refl refl refl] show ?thesis
      by (simp add: Let_def)
  next
    case False
    with "4.IH"(1)[OF refl refl refl] "4.IH"(2)[OF refl refl refl] show ?thesis
      by (simp add: Let_def)
  qed
qed simp_all

lemma created_append:
  "created (xs @ ys) par f n
     = created xs par f n @ created ys par f (n + length (created xs par f n))"
  by (induction xs par f n rule: created.induct) (simp_all add: add.assoc)

lemma created_direct:
  "Entry t (Resolves i) ch \<in> set items \<Longrightarrow> (t, f i, par) \<in> set (created items par f n)"
  by (induction items par f n rule: created.induct) auto

lemma add_nested_outline_dropped:
  "[t. WarnUnresolvedBookmark t \<leftarrow> snd (add_nested_outline items par f st)]
     = [t. WarnUnresolvedBookmark t \<leftarrow> snd st] @ dropped items"
  by (induction items par f st rule: add_nested_outline.induct) (simp_all add: Let_def)

lemma add_nested_outline_pages:
  "wpages (fst (add_nested_outline items par f st)) = wpages (fst st)"
  by (induction items par f st rule: add_nested_outline.induct) (simp_all add: Let_def)

lemma add_nested_outline_log:
  "set (snd st) \<subseteq> set (snd (add_nested_outline items par f st))"
proof (induction items par f st rule: add_nested_outline.induct)
  case (4 title source_page_index children source_items target_parent page_idx_transform_func st)
  show ?case
  proof (cases "children = []")
    case True
    with "4.IH"(2)[OF refl refl refl] show ?thesis
      by (simp add: Let_def)
  next
    case False
    with "4.IH"(1)[OF refl refl refl] "4.IH"(2)[OF refl refl refl] show ?thesis
      by (auto simp add: Let_def)
  qed
qed auto

lemma add_nested_outline_top:
  "par \<noteq> None \<Longrightarrow>
   [e \<leftarrow> woutline (fst (add_nested_outline items par f st)). snd (snd e) = None]
     = [e \<leftarrow> woutline (fst st). snd (snd e) = None]"
proof (induction items par f st rule: add_nested_outline.induct)
  case (4 title source_page_index children source_items target_parent page_idx_transform_func st)
  show ?case
  proof (cases "children = []")
    case True
    with "4.IH"(2)[OF refl refl refl] "4.prems" show ?thesis
      by (simp add: Let_def)
  next
    case False
    with "4.IH"(1)[OF refl refl refl] "4.IH"(2)[OF refl refl refl] "4.prems" show ?thesis
      by (simp add: Let_def)
  qed
qed simp_all

text \<open>
  Claim C6. In the tree walk of \<open>add_nested_outline\<close>, an entry whose page lookup raises is
  skipped, a warning naming it is logged and the walk goes on with the entries after it. An
  entry whose lookup returns an index is appended under the destination parent with the
  page index that the caller's map gives, the list in its \<open>children\<close> attribute is walked
  under the new entry, and the walk goes on; a nested list is walked under the destination
  parent of the list around it. Over a whole tree, the rows added to the table are exactly
  \<open>created\<close>, with their parents and in source order, and the warnings are the titles of
  the entries whose lookup raises. The claim fails where the lookup does not raise: for a
  page object that is not a page of the document \<open>get_page_number\<close> answers -1, line 114
  takes the answer as an index, and the entry is added at the image of -1 under the map
  with no diagnostic.
\<close>

theorem add_nested_outline_skips_only_raising_lookup:
  "add_nested_outline (Entry title Unresolvable children # rest) parent f (w, printed_so_far)
     = add_nested_outline rest parent f (w, printed_so_far @ [WarnUnresolvedBookmark title])
   \<and> add_nested_outline (Entry title (Resolves i) children # rest) parent f (w, printed_so_far)
     = add_nested_outline rest parent f
         (add_nested_outline children (Some (length (woutline w))) f
            (w\<lparr>woutline := woutline w @ [(title, f i, parent)]\<rparr>, printed_so_far))
   \<and> add_nested_outline (Sub sub # rest) parent f (w, printed_so_far)
     = add_nested_outline rest parent f (add_nested_outline sub parent f (w, printed_so_far))
   \<and> woutline (fst (add_nested_outline items parent f (w, printed_so_far)))
     = woutline w @ created items parent f (length (woutline w))
   \<and> [t. WarnUnresolvedBookmark t \<leftarrow> snd (add_nested_outline items parent f (w, printed_so_far))]
     = [t. WarnUnresolvedBookmark t \<leftarrow> printed_so_far] @ dropped items
   \<and> add_nested_outline [Entry ''D'' (Resolves (- 1)) []] None (\<lambda>idx. idx + 3)
       (\<lparr>wpages = [], woutline = []\<rparr>, [])
     = (\<lparr>wpages = [], woutline = [(''D'', 2, None)]\<rparr>, [])"
proof -
  have add: "add_nested_outline (Entry title (Resolves i) children # rest) parent f (w, printed_so_far)
     = add_nested_outline rest parent f
         (add_nested_outline children (Some (length (woutline w))) f
            (w\<lparr>woutline := woutline w @ [(title, f i, parent)]\<rparr>, printed_so_far))"
    by (cases children) (simp_all add: Let_def)
  show ?thesis
    using add add_nested_outline_created[of items parent f "(w, printed_so_far)"]
      add_nested_outline_dropped[of items parent f "(w, printed_so_far)"]
    by (simp add: Let_def)
qed

text \<open>
  Claim C10 as stated fails: the descendants of an entry arrive as the nested list after
  it, and that list is walked whether or not the entry before it was skipped. For the
  outline A, U, [U1, U2], B, where the page lookup of U raises, the walk skips U and adds
  U1 and U2 beside A and B.
\<close>

theorem add_nested_outline_keeps_list_after_skipped_entry:
  "add_nested_outline
     [Entry ''A'' (Resolves 0) [], Entry ''U'' Unresolvable [],
      Sub [Entry ''U1'' (Resolves 1) [], Entry ''U2'' (Resolves 2) []], Entry ''B'' (Resolves 3) []]
     None (\<lambda>idx. idx + 10) (\<lparr>wpages = [], woutline = []\<rparr>, [])
   = (\<lparr>wpages = [],
       woutline = [(''A'', 10, None), (''U1'', 11, None), (''U2'', 12, None), (''B'', 13, None)]\<rparr>,
      [WarnUnresolvedBookmark ''U''])"
  by (simp add: Let_def)

text \<open>
  Claim C10, as amended. When an entry is skipped because its page lookup raises, the list
  in its own \<open>children\<close> attribute is not walked: the result is the same as for the entry
  without children, wherever the entry stands. A nested list that follows the skipped entry
  in \<open>source_items\<close> is walked all the same, under the destination parent of the skipped
  entry: the table gets exactly the rows it would get if the skipped entry were not there,
  and every entry of the nested list whose lookup returns an index is a row under that
  parent.
\<close>

theorem add_nested_outline_skipped_entry_descendants:
  "add_nested_outline (before @ Entry title Unresolvable children # after) parent f st
     = add_nested_outline (before @ Entry title Unresolvable [] # after) parent f st
   \<and> woutline (fst (add_nested_outline
                     (before @ Entry title Unresolvable children # Sub sub # after) parent f st))
     = woutline (fst st) @ created (before @ Sub sub # after) parent f (length (woutline (fst st)))
   \<and> (Entry t (Resolves i) ch \<in> set sub \<longrightarrow>
        (t, f i, parent) \<in> set (woutline (fst (add_nested_outline
            (before @ Entry title Unresolvable children # Sub sub # after) parent f st))))"
proof -
  have a: "add_nested_outline (before @ Entry title Unresolvable children # after) parent f st
     = add_nested_outline (before @ Entry title Unresolvable [] # after) parent f st"
    by (simp add: add_nested_outline_append)
  have b: "woutline (fst (add_nested_outline
                     (before @ Entry title Unresolvable children # Sub sub # after) parent f st))
     = woutline (fst st) @ created (before @ Sub sub # after) parent f (length (woutline (fst st)))"
    by (simp add: add_nested_outline_created created_append)
  have c: "Entry t (Resolves i) ch \<in> set sub \<Longrightarrow>
        (t, f i, parent) \<in> set (created (before @ Sub sub # after) parent f n)" for n
    by (simp add: created_append created_direct)
  from a b c show ?thesis
    by simp
qed

theorem add_nested_outline_skipped_entry_descendants_witness:
  "(''V2'', 7, Some 4) \<in> set (woutline (fst (add_nested_outline
      [Entry ''P'' (Resolves 0) [], Entry ''V'' Unresolvable [Entry ''hidden'' (Resolves 9) []],
       Sub [Entry ''V1'' (Resolves 1) [], Entry ''V2'' (Resolves 2) []]]
      (Some 4) (\<lambda>idx. idx + 5) (\<lparr>wpages = [], woutline = []\<rparr>, []))))"
proof -
  have h: "Entry ''V2'' (Resolves 2) []
             \<in> set [Entry ''V1'' (Resolves 1) [], Entry ''V2'' (Resolves 2) []]"
    by simp
  note walk = add_nested_outline_skipped_entry_descendants
         [of "[Entry ''P'' (Resolves 0) []]" "''V''" "[Entry ''hidden'' (Resolves 9) []]" "[]"
             "Some 4" "\<lambda>idx. idx + 5" "(\<lparr>wpages = [], woutline = []\<rparr>, [])"
             "[Entry ''V1'' (Resolves 1) [], Entry ''V2'' (Resolves 2) []]" "''V2''" 2 "[]"]
  from walk h have "(''V2'', (\<lambda>idx. idx + 5) 2, Some 4) \<in> set (woutline (fst (add_nested_outline
      ([Entry ''P'' (Resolves 0) []] @ Entry ''V'' Unresolvable [Entry ''hidden'' (Resolves 9) []]
        # Sub [Entry ''V1'' (Resolves 1) [], Entry ''V2'' (Resolves 2) []] # [])
      (Some 4) (\<lambda>idx. idx + 5) (\<lparr>wpages = [], woutline = []\<rparr>, []))))"
    by blast
  then show ?thesis
    by simp
qed

lemma fs_lookup_write_file [simp]:
  "fs_lookup (write_file p c s) q = (if q = p then Some c else fs_lookup s q)"
  by (simp add: fs_lookup_def write_file_def update_conv')

lemma fs_lookup_print [simp]: "fs_lookup (print e s) q = fs_lookup s q"
  by (simp add: fs_lookup_def print_def)

lemma fs_lookup_printed_update [simp]: "fs_lookup (s\<lparr>printed := l\<rparr>) q = fs_lookup s q"
  by (simp add: fs_lookup_def)

lemma fs_lookup_mkdir [simp]: "fs_lookup (mkdir d s) q = fs_lookup s q"
  by (simp add: fs_lookup_def mkdir_def)

lemma number_loop_ok:
  "\<forall>p\<in>set ps. mediabox p \<noteq> None \<Longrightarrow>
   \<exists>qs. number_loop i tot ps = Inr qs \<and> length qs = length ps
      \<and> (\<forall>k<length ps. \<exists>w h. mediabox (ps ! k) = Some (w, h)
           \<and> qs ! k = (ps ! k)\<lparr>content := content (ps ! k)
                 @ [DrawRightString (w - 30) 30 10
                      (str_nat ((i + k) div 2 + 1) @ '' / '' @ str_nat tot)]\<rparr>)"
proof (induction ps arbitrary: i)
  case Nil
  then show ?case by simp
next
  case (Cons p ps)
  then obtain w h where wh: "mediabox p = Some (w, h)" by auto
  from Cons obtain qs where qs: "number_loop (Suc i) tot ps = Inr qs" "length qs = length ps"
     "\<forall>k<length ps. \<exists>w h. mediabox (ps ! k) = Some (w, h)
           \<and> qs ! k = (ps ! k)\<lparr>content := content (ps ! k)
                 @ [DrawRightString (w - 30) 30 10
                      (str_nat ((Suc i + k) div 2 + 1) @ '' / '' @ str_nat tot)]\<rparr>"
    by (metis list.set_intros(2))
  show ?case
  proof (intro exI[of _ "p\<lparr>content := content p @ [DrawRightString (w - 30) 30 10
                      (str_nat (i div 2 + 1) @ '' / '' @ str_nat tot)]\<rparr> # qs"] conjI allI impI)
    show "number_loop i tot (p # ps) = Inr (p\<lparr>content := content p @ [DrawRightString (w - 30) 30 10
                      (str_nat (i div 2 + 1) @ '' / '' @ str_nat tot)]\<rparr> # qs)"
      using wh qs(1) by (simp add: Let_def)
    show "length (p\<lparr>content := content p @ [DrawRightString (w - 30) 30 10
                      (str_nat (i div 2 + 1) @ '' / '' @ str_nat tot)]\<rparr> # qs) = length (p # ps)"
      using qs(2) by simp
  next
    fix k assume "k < length (p # ps)"
    show "\<exists>w' h'. mediabox ((p # ps) ! k) = Some (w', h') \<and>
         (p\<lparr>content := content p @ [DrawRightString (w - 30) 30 10
                      (str_nat (i div 2 + 1) @ '' / '' @ str_nat tot)]\<rparr> # qs) ! k =
         ((p # ps) ! k)\<lparr>content := content ((p # ps) ! k) @
              [DrawRightString (w' - 30) 30 10 (str_nat ((i + k) div 2 + 1) @ '' / '' @ str_nat tot)]\<rparr>"
    proof (cases k)
      case 0
      then show ?thesis using wh by simp
    next
      case (Suc j)
      with \<open>k < length (p # ps)\<close> have "j < length ps" by simp
      with qs(3) Suc show ?thesis by simp
    qed
  qed
qed

text \<open>
  Claim C7. When the intermediate file read by \<open>add_page_numbers\<close> of pdfinsert.py has an
  odd number of pages (and every page has a media box), the function logs the odd-page
  warning, which names the total and total div 2, and returns the output path; the output
  file has the pages of the input, the page at index i carrying the right-aligned label
  "i div 2 + 1 / total div 2".
\<close>

theorem add_page_numbers_odd_total:
  assumes inp: "fs_lookup s input_pdf = Some (Pdf d)"
    and odd_n: "odd (length (pages d))"
    and boxes: "\<forall>p\<in>set (pages d). mediabox p \<noteq> None"
  shows "\<exists>s' d'. add_page_numbers input_pdf output_pdf original_outline_struct outline_source_reader s
               = (Some output_pdf, s')
          \<and> WarnOddPages (basename input_pdf) (length (pages d)) (length (pages d) div 2)
              \<in> set (printed s')
          \<and> fs_lookup s' output_pdf = Some (Pdf d')
          \<and> length (pages d') = length (pages d)
          \<and> (\<forall>i<length (pages d). \<exists>w h. mediabox (pages d ! i) = Some (w, h)
                \<and> pages d' ! i = (pages d ! i)\<lparr>content := content (pages d ! i)
                      @ [DrawRightString (w - 30) 30 10
                           (str_nat (i div 2 + 1) @ '' / ''
                              @ str_nat (length (pages d) div 2))]\<rparr>)"
proof -
  let ?n = "length (pages d)"
  let ?s1 = "print (WarnOddPages (basename input_pdf) ?n (?n div 2)) s"
  from number_loop_ok[OF boxes, of 0 "?n div 2"] obtain qs where qs:
    "number_loop 0 (?n div 2) (pages d) = Inr qs" "length qs = ?n"
    "\<forall>k<?n. \<exists>w h. mediabox (pages d ! k) = Some (w, h)
           \<and> qs ! k = (pages d ! k)\<lparr>content := content (pages d ! k)
                 @ [DrawRightString (w - 30) 30 10
                      (str_nat ((0 + k) div 2 + 1) @ '' / '' @ str_nat (?n div 2))]\<rparr>"
    by blast
  define st where "st = (if original_outline_struct \<noteq> [] \<and> outline_source_reader
                          then add_nested_outline original_outline_struct None (\<lambda>orig_idx. orig_idx * 2)
                                 (\<lparr>wpages = qs, woutline = []\<rparr>,
                                  printed ?s1 @ [InfoAddingBookmarks (basename output_pdf)])
                          else (\<lparr>wpages = qs, woutline = []\<rparr>, printed ?s1))"
  have reader: "PdfReader s input_pdf = Inr d"
    using inp by (simp add: PdfReader_def)
  have body: "add_page_numbers_try input_pdf output_pdf original_outline_struct outline_source_reader s
          = (Inr output_pdf, write_file output_pdf (written (fst st)) (?s1\<lparr>printed := snd st\<rparr>))"
    using reader odd_n qs(1)
    by (simp add: add_page_numbers_try_def Let_def st_def split_beta odd_iff_mod_2_eq_one)
  have pages_st: "wpages (fst st) = qs"
    by (simp add: st_def add_nested_outline_pages)
  have ev: "set (printed ?s1) \<subseteq> set (snd st)"
    using add_nested_outline_log[of "(\<lparr>wpages = qs, woutline = []\<rparr>,
              printed ?s1 @ [InfoAddingBookmarks (basename output_pdf)])"
            original_outline_struct None "\<lambda>orig_idx. orig_idx * 2"]
    by (auto simp add: st_def)
  let ?s' = "write_file output_pdf (written (fst st)) (?s1\<lparr>printed := snd st\<rparr>)"
  let ?d' = "\<lparr>pages = qs, outline = outline_as_read (woutline (fst st))\<rparr>"
  have run: "add_page_numbers input_pdf output_pdf original_outline_struct outline_source_reader s
               = (Some output_pdf, ?s')"
    by (simp add: add_page_numbers_def body)
  have warn: "WarnOddPages (basename input_pdf) ?n (?n div 2) \<in> set (printed ?s')"
    using ev by (auto simp add: write_file_def print_def)
  have out: "fs_lookup ?s' output_pdf = Some (Pdf ?d')"
    by (simp add: written_def pages_st)
  show ?thesis
    using run warn out qs(2) qs(3) by (intro exI[of _ ?s'] exI[of _ ?d']) simp
qed

theorem add_page_numbers_odd_total_witness:
  "\<exists>s' d'. add_page_numbers ''output/temp_blank_x.pdf'' ''output/x.pdf'' [] True
            \<lparr>files = [(''output/temp_blank_x.pdf'',
                        Pdf \<lparr>pages = [\<lparr>mediabox = Some (100, 200), content = [Source ''p1'']\<rparr>,
                                      \<lparr>mediabox = Some (100, 100), content = []\<rparr>,
                                      \<lparr>mediabox = Some (100, 200), content = [Source ''p2'']\<rparr>],
                             outline = []\<rparr>)],
               dirs = [''output''], undeletable = [], printed = []\<rparr>
            = (Some ''output/x.pdf'', s')
      \<and> WarnOddPages ''temp_blank_x.pdf'' 3 1 \<in> set (printed s')
      \<and> fs_lookup s' ''output/x.pdf'' = Some (Pdf d')
      \<and> length (pages d') = 3
      \<and> pages d' ! 2 = \<lparr>mediabox = Some (100, 200),
                           content = [Source ''p2'', DrawRightString 70 30 10 ''2 / 1'']\<rparr>"
proof -
  let ?d = "\<lparr>pages = [\<lparr>mediabox = Some (100, 200), content = [Source ''p1'']\<rparr>,
                       \<lparr>mediabox = Some (100, 100), content = []\<rparr>,
                       \<lparr>mediabox = Some (100, 200), content = [Source ''p2'']\<rparr>],
              outline = []\<rparr>"
  let ?s = "\<lparr>files = [(''output/temp_blank_x.pdf'', Pdf ?d)],
             dirs = [''output''], undeletable = [], printed = []\<rparr>"
  have h1: "fs_lookup ?s ''output/temp_blank_x.pdf'' = Some (Pdf ?d)"
    by (simp add: fs_lookup_def)
  have h2: "odd (length (pages ?d))"
    by simp
  have h3: "\<forall>p\<in>set (pages ?d). mediabox p \<noteq> None"
    by simp
  from add_page_numbers_odd_total[OF h1 h2 h3, of "''output/x.pdf''" "[]" True]
  obtain s' d' where r:
    "add_page_numbers ''output/temp_blank_x.pdf'' ''output/x.pdf'' [] True ?s = (Some ''output/x.pdf'', s')"
    "WarnOddPages (basename ''output/temp_blank_x.pdf'') (length (pages ?d)) (length (pages ?d) div 2)
       \<in> set (printed s')"
    "fs_lookup s' ''output/x.pdf'' = Some (Pdf d')"
    "length (pages d') = length (pages ?d)"
    "\<forall>i<length (pages ?d). \<exists>w h. mediabox (pages ?d ! i) = Some (w, h)
        \<and> pages d' ! i = (pages ?d ! i)\<lparr>content := content (pages ?d ! i)
              @ [DrawRightString (w - 30) 30 10
                   (str_nat (i div 2 + 1) @ '' / '' @ str_nat (length (pages ?d) div 2))]\<rparr>"
    by blast
  have "(2::nat) < length (pages ?d)"
    by simp
  with r(5) obtain w h where wh: "mediabox (pages ?d ! 2) = Some (w, h)"
    "pages d' ! 2 = (pages ?d ! 2)\<lparr>content := content (pages ?d ! 2)
              @ [DrawRightString (w - 30) 30 10
                   (str_nat (2 div 2 + 1) @ '' / '' @ str_nat (length (pages ?d) div 2))]\<rparr>"
    by blast
  from wh(1) have "w = 100"
    by simp
  with wh(2) have p2: "pages d' ! 2 = \<lparr>mediabox = Some (100, 200),
                           content = [Source ''p2'', DrawRightString 70 30 10 ''2 / 1'']\<rparr>"
    by (simp add: str_nat.simps)
  have len: "length (pages ?d) = 3"
    by simp
  have half: "(3::nat) div 2 = 1"
    by simp
  have name: "basename ''output/temp_blank_x.pdf'' = ''temp_blank_x.pdf''"
    by (simp add: basename_def)
  have w: "WarnOddPages ''temp_blank_x.pdf'' 3 1 \<in> set (printed s')"
    using r(2) unfolding len half name .
  show ?thesis
    using r(1) r(3) r(4) w p2 unfolding len by (intro exI[of _ s'] exI[of _ d']) simp
qed








lemma glob_pdf_files: "files s' = files s \<Longrightarrow> glob_pdf s' d = glob_pdf s d"
  by (simp add: glob_pdf_def)

lemma is_file_files: "files s' = files s \<Longrightarrow> is_file s' p = is_file s p"
  by (simp add: is_file_def fs_lookup_def)

lemma files_print [simp]: "files (print e s) = files s"
  by (simp add: print_def)

lemma files_mkdir [simp]: "files (mkdir d s) = files s"
  by (simp add: mkdir_def)

lemma printed_print [simp]: "printed (print e s) = printed s @ [e]"
  by (simp add: print_def)

lemma merge_loop_nothing:
  "\<forall>p\<in>set ps. \<forall>d. map_of (files s) p = Some (Pdf d) \<longrightarrow> pages d = [] \<Longrightarrow>
   \<exists>s'. merge_loop idx tot ps (w, cur, cnt, s) = (w, cur, cnt, s') \<and> files s' = files s
        \<and> (\<exists>ev. printed s' = printed s @ ev)"
proof (induction ps arbitrary: idx s)
  case Nil
  then show ?case by simp
next
  case (Cons p ps)
  let ?s1 = "print (InfoReading (idx + 1) tot p) s"
  define s2 where "s2 = (case PdfReader ?s1 p of
      Inl e \<Rightarrow> print (ErrMergeFile (idx + 1) tot p e) ?s1
    | Inr r \<Rightarrow> print (InfoSkipEmpty (idx + 1) tot p) ?s1)"
  have f2: "files s2 = files s"
    by (simp add: s2_def split: sum.splits)
  have p2: "\<exists>ev. printed s2 = printed s @ ev"
    by (simp add: s2_def split: sum.splits)
  have step: "merge_loop idx tot (p # ps) (w, cur, cnt, s)
                = merge_loop (Suc idx) tot ps (w, cur, cnt, s2)"
    using Cons.prems
    by (auto simp add: s2_def Let_def PdfReader_def fs_lookup_def
             split: sum.splits option.splits stored.splits)
  from Cons.prems f2 have "\<forall>q\<in>set ps. \<forall>d. map_of (files s2) q = Some (Pdf d) \<longrightarrow> pages d = []"
    by simp
  from Cons.IH[OF this, of "Suc idx"] obtain s' where
    "merge_loop (Suc idx) tot ps (w, cur, cnt, s2) = (w, cur, cnt, s')" "files s' = files s2"
    "\<exists>ev. printed s' = printed s2 @ ev"
    by blast
  with step f2 p2 show ?case
    by auto
qed

lemma merge_nothing:
  assumes "\<forall>p\<in>set (glob_pdf s output_dir).
             \<not> startswith (basename p) ''temp_''
             \<longrightarrow> (\<forall>d. fs_lookup s p = Some (Pdf d) \<longrightarrow> pages d = [])"
  shows "files (merge_pdfs_with_bookmarks output_dir final_pdf_filename s) = files s
       \<and> last (printed (merge_pdfs_with_bookmarks output_dir final_pdf_filename s))
            \<in> {WarnNothingToMerge output_dir, ErrNoPagesMerged}"
proof -
  let ?s1 = "print (InfoMergeStart output_dir) s"
  let ?cands = "sort_key get_sort_key
              [f \<leftarrow> glob_pdf ?s1 output_dir. is_file ?s1 f \<and> \<not> startswith (basename f) ''temp_'']"
  show ?thesis
  proof (cases "?cands = []")
    case True
    then show ?thesis
      by (simp add: merge_pdfs_with_bookmarks_def Let_def)
  next
    case False
    let ?s2 = "print (InfoMerging (length ?cands)
                 (take 5 (map basename ?cands) @ (if 5 < length (map basename ?cands) then [''...''] else []))) ?s1"
    have "\<forall>p\<in>set ?cands. \<forall>d. map_of (files ?s2) p = Some (Pdf d) \<longrightarrow> pages d = []"
      using assms by (auto simp add: glob_pdf_files[of ?s1 s] fs_lookup_def)
    from merge_loop_nothing[OF this, of 0 "length ?cands" "\<lparr>wpages = [], woutline = []\<rparr>" 0 0]
    obtain s3 where s3: "merge_loop 0 (length ?cands) ?cands (\<lparr>wpages = [], woutline = []\<rparr>, 0, 0, ?s2)
         = (\<lparr>wpages = [], woutline = []\<rparr>, 0, 0, s3)" "files s3 = files ?s2"
      by blast
    have "merge_pdfs_with_bookmarks output_dir final_pdf_filename s = print ErrNoPagesMerged s3"
      using False s3(1) by (simp add: merge_pdfs_with_bookmarks_def Let_def)
    with s3(2) show ?thesis
      by simp
  qed
qed

lemma process_all_nothing:
  assumes "glob_pdf s INPUT_DIR = []"
  shows "process_all_pdfs s
         = print (WarnNoPdfFound INPUT_DIR)
             (print (InfoScan INPUT_DIR) (mkdir BACKUP_DIR (mkdir OUTPUT_DIR (mkdir INPUT_DIR s))))"
proof -
  have "glob_pdf (print (InfoScan INPUT_DIR) (mkdir BACKUP_DIR (mkdir OUTPUT_DIR (mkdir INPUT_DIR s))))
          INPUT_DIR = glob_pdf s INPUT_DIR"
    by (rule glob_pdf_files) simp
  with assms show ?thesis
    by (simp add: process_all_pdfs_def Let_def)
qed

lemma fill_main_nothing:
  assumes "isdir s (input_arg a)" "glob_dir_pdf s (input_arg a) = []"
  shows "fill_main string_width a s = (None, print (ErrNoPdfInDir (input_arg a)) s)"
  using assms by (simp add: fill_main_def find_input_files_def Let_def)

text \<open>
  Claim C9. The fatal conditions end the operation with a message and without writing a
  file. In pdfinsert.py, when every file that the merge step would read is unreadable or
  has no page (or there is no such file), \<open>merge_pdfs_with_bookmarks\<close> leaves the files as
  they are, so it creates no merged file, and its last message is the one for nothing to
  merge or for no page merged; when the input directory holds no PDF file,
  \<open>process_all_pdfs\<close> leaves the files as they are and its last message says so. In
  pdf\_fill.py, \<open>main\<close> on a directory without PDF files only prints its error message
  and returns.
\<close>

theorem fatal_conditions_write_nothing:
  "((\<forall>p\<in>set (glob_pdf s output_dir).
        \<not> startswith (basename p) ''temp_''
        \<longrightarrow> (\<forall>d. fs_lookup s p = Some (Pdf d) \<longrightarrow> pages d = []))
    \<longrightarrow> files (merge_pdfs_with_bookmarks output_dir final_pdf_filename s) = files s
        \<and> last (printed (merge_pdfs_with_bookmarks output_dir final_pdf_filename s))
            \<in> {WarnNothingToMerge output_dir, ErrNoPagesMerged})
   \<and> (glob_pdf t INPUT_DIR = []
    \<longrightarrow> files (process_all_pdfs t) = files t
        \<and> last (printed (process_all_pdfs t)) = WarnNoPdfFound INPUT_DIR)
   \<and> (isdir u (input_arg a) \<and> glob_dir_pdf u (input_arg a) = []
    \<longrightarrow> fill_main string_width a u = (None, print (ErrNoPdfInDir (input_arg a)) u)
        \<and> files (snd (fill_main string_width a u)) = files u
        \<and> last (printed (snd (fill_main string_width a u))) = ErrNoPdfInDir (input_arg a))"
  using merge_nothing[of s output_dir final_pdf_filename]
  by (simp add: process_all_nothing fill_main_nothing)

theorem fatal_conditions_write_nothing_witness:
  "fs_lookup (merge_pdfs_with_bookmarks ''output'' ''merged_output.pdf''
       \<lparr>files = [(''output/x.pdf'', Garbage), (''output/e.pdf'', Pdf \<lparr>pages = [], outline = []\<rparr>)],
          dirs = [''output''], undeletable = [], printed = []\<rparr>) ''merged_output.pdf'' = None
   \<and> files (process_all_pdfs
       \<lparr>files = [(''pdfs/notes.txt'', Garbage)], dirs = [], undeletable = [], printed = []\<rparr>)
       = [(''pdfs/notes.txt'', Garbage)]
   \<and> fill_main (\<lambda>t z. 0) \<lparr>input_arg = ''./PDFS'', output_arg = None, no_merge = False\<rparr>
       \<lparr>files = [(''./PDFS/notes.txt'', Garbage)], dirs = [''./PDFS''], undeletable = [], printed = []\<rparr>
       = (None, \<lparr>files = [(''./PDFS/notes.txt'', Garbage)], dirs = [''./PDFS''], undeletable = [],
                  printed = [ErrNoPdfInDir ''./PDFS'']\<rparr>)"
proof -
  let ?s = "\<lparr>files = [(''output/x.pdf'', Garbage), (''output/e.pdf'', Pdf \<lparr>pages = [], outline = []\<rparr>)],
             dirs = [''output''], undeletable = [], printed = []\<rparr>"
  let ?t = "\<lparr>files = [(''pdfs/notes.txt'', Garbage)], dirs = [], undeletable = [], printed = []\<rparr>"
  let ?u = "\<lparr>files = [(''./PDFS/notes.txt'', Garbage)], dirs = [''./PDFS''], undeletable = [], printed = []\<rparr>"
  let ?a = "\<lparr>input_arg = ''./PDFS'', output_arg = None, no_merge = False\<rparr>"
  have h1: "\<forall>p\<in>set (glob_pdf ?s ''output'').
        \<not> startswith (basename p) ''temp_''
        \<longrightarrow> (\<forall>d. fs_lookup ?s p = Some (Pdf d) \<longrightarrow> pages d = [])"
    by (simp add: glob_pdf_def startswith_def endswith_def fs_lookup_def)
  have h2: "glob_pdf ?t INPUT_DIR = []"
    by (simp add: glob_pdf_def startswith_def endswith_def INPUT_DIR_def)
  have h3: "isdir ?u (input_arg ?a) \<and> glob_dir_pdf ?u (input_arg ?a) = []"
    by (simp add: isdir_def glob_dir_pdf_def os_join_def os_dirname_def startswith_def endswith_def
          Let_def)
  note fatal = fatal_conditions_write_nothing
                 [of ?s "''output''" "''merged_output.pdf''" ?t ?u ?a "\<lambda>t z. 0"]
  from fatal h1 have r1: "files (merge_pdfs_with_bookmarks ''output'' ''merged_output.pdf'' ?s) = files ?s"
    by blast
  from fatal h2 have r2: "files (process_all_pdfs ?t) = files ?t"
    by blast
  from fatal h3 have r3: "fill_main (\<lambda>t z. 0) ?a ?u = (None, print (ErrNoPdfInDir (input_arg ?a)) ?u)"
    by blast
  from r1 have "fs_lookup (merge_pdfs_with_bookmarks ''output'' ''merged_output.pdf'' ?s)
                  ''merged_output.pdf'' = None"
    by (simp add: fs_lookup_def)
  with r2 r3 show ?thesis
    by (simp add: print_def)
qed

lemma undeletable_print [simp]: "undeletable (print e s) = undeletable s"
  by (simp add: print_def)

lemma undeletable_prints [simp]: "undeletable (prints ev s) = undeletable s"
  by (simp add: prints_def)

lemma files_prints [simp]: "files (prints ev s) = files s"
  by (simp add: prints_def)

lemma undeletable_mkdir [simp]: "undeletable (mkdir d s) = undeletable s"
  by (simp add: mkdir_def)

lemma undeletable_write_file [simp]: "undeletable (write_file p c s) = undeletable s"
  by (simp add: write_file_def)

lemma undeletable_copy2: "copy2 src dst s = Inr s' \<Longrightarrow> undeletable s' = undeletable s"
  by (auto simp add: copy2_def split: option.splits)

lemma is_file_print [simp]: "is_file (print e s) p = is_file s p"
  by (simp add: is_file_def fs_lookup_def)

lemma is_file_prints [simp]: "is_file (prints ev s) p = is_file s p"
  by (simp add: is_file_def fs_lookup_def)

lemma is_file_write_file [simp]: "is_file (write_file q c s) p = (p = q \<or> is_file s p)"
  by (auto simp add: is_file_def fs_lookup_def write_file_def update_conv')

lemma remove_temp_file_undeletable [simp]:
  "undeletable (remove_temp_file t s) = undeletable s"
  by (auto simp add: remove_temp_file_def unlink_def)



lemma remove_temp_file_other:
  "p \<noteq> t \<Longrightarrow> is_file (remove_temp_file t s) p = is_file s p"
  by (auto simp add: remove_temp_file_def unlink_def is_file_def fs_lookup_def delete_conv')

lemma remove_temp_file_printed:
  "set (printed s) \<subseteq> set (printed (remove_temp_file t s))"
  by (auto simp add: remove_temp_file_def unlink_def)



lemma copy2_cases:
  obtains (missing) "fs_lookup s src = None" "copy2 src dst s = Inl (FileNotFoundError src)"
  | (copied) c where "fs_lookup s src = Some c" "copy2 src dst s = Inr (write_file dst c s)"
  by (cases "fs_lookup s src") (auto simp add: copy2_def)

lemma add_page_numbers_try_undeletable [simp]:
  "undeletable (snd (add_page_numbers_try i out ol r s)) = undeletable s"
proof (cases "PdfReader s i")
  case (Inl e)
  then show ?thesis by (simp add: add_page_numbers_try_def)
next
  case (Inr reader)
  show ?thesis
  proof (cases "number_loop 0 (length (pages reader) div 2) (pages reader)")
    case (Inl e)
    with Inr show ?thesis by (simp add: add_page_numbers_try_def Let_def)
  next
    case (Inr numbered)
    with \<open>PdfReader s i = Inr reader\<close> show ?thesis
      by (simp add: add_page_numbers_try_def Let_def split_beta)
  qed
qed

lemma add_page_numbers_undeletable [simp]:
  "undeletable (snd (add_page_numbers i out ol r s)) = undeletable s"
proof (cases "add_page_numbers_try i out ol r s")
  case (Pair res s1)
  then have u: "undeletable s1 = undeletable s"
    using add_page_numbers_try_undeletable[of i out ol r s] by simp
  show ?thesis
  proof (cases res)
    case (Inr p)
    with Pair u show ?thesis by (simp add: add_page_numbers_def)
  next
    case (Inl e)
    show ?thesis
    proof (cases rule: copy2_cases[of "print (ErrAddPageNumbers i out) s1" i out])
      case missing
      with Pair Inl u show ?thesis by (simp add: add_page_numbers_def Let_def)
    next
      case (copied c)
      with Pair Inl u show ?thesis by (simp add: add_page_numbers_def Let_def)
    qed
  qed
qed

lemma fs_lookup_files: "files s' = files s \<Longrightarrow> fs_lookup s' q = fs_lookup s q"
  by (simp add: fs_lookup_def)

lemma printed_mkdir [simp]: "printed (mkdir d s) = printed s"
  by (simp add: mkdir_def)

lemma printed_write_file [simp]: "printed (write_file p c s) = printed s"
  by (simp add: write_file_def)

lemma add_margins_fails:
  "(\<exists>p\<in>set ps. mediabox p = None) \<longrightarrow> add_margins ps = Inl MediaBoxError"
  by (induction ps) (fastforce split: option.splits sum.splits simp add: Let_def)+

lemma add_margins_ok:
  "\<forall>p\<in>set ps. mediabox p \<noteq> None \<Longrightarrow>
   \<exists>ms. add_margins ps = Inr ms \<and> length ms = length ps \<and> (\<forall>p\<in>set ms. mediabox p \<noteq> None)"
  by (induction ps) (auto split: option.splits sum.splits simp add: Let_def)

lemma add_blank_pages_ok:
  "\<forall>p\<in>set ms. mediabox p \<noteq> None \<Longrightarrow>
   \<exists>bs. add_blank_pages ms = Inr bs \<and> length bs = 2 * length ms
        \<and> (\<forall>p\<in>set bs. mediabox p \<noteq> None)"
  by (induction ms) (auto split: option.splits sum.splits simp add: Let_def)

lemma print_printed_update [simp]: "(print e s)\<lparr>printed := l\<rparr> = s\<lparr>printed := l\<rparr>"
  by (simp add: print_def)

lemma add_page_numbers_try_ok:
  assumes inp: "fs_lookup s i = Some (Pdf d)"
    and boxes: "\<forall>p\<in>set (pages d). mediabox p \<noteq> None"
  shows "\<exists>w l. add_page_numbers_try i out ol r s
                 = (Inr out, write_file out (written w) (s\<lparr>printed := l\<rparr>))
             \<and> set (printed s) \<subseteq> set l \<and> length (wpages w) = length (pages d)"
proof -
  let ?n = "length (pages d)"
  define s1 where "s1 = (if ?n mod 2 \<noteq> 0
                     then print (WarnOddPages (basename i) ?n (?n div 2)) s
                     else if ?n div 2 = 0 \<and> ?n > 0
                     then print (WarnZeroOriginalPages ?n) s
                     else s)"
  from number_loop_ok[OF boxes, of 0 "?n div 2"] obtain qs where qs:
    "number_loop 0 (?n div 2) (pages d) = Inr qs" "length qs = ?n"
    by blast
  define st where "st = (if ol \<noteq> [] \<and> r
                          then add_nested_outline ol None (\<lambda>orig_idx. orig_idx * 2)
                                 (\<lparr>wpages = qs, woutline = []\<rparr>,
                                  printed s1 @ [InfoAddingBookmarks (basename out)])
                          else (\<lparr>wpages = qs, woutline = []\<rparr>, printed s1))"
  have reader: "PdfReader s i = Inr d"
    using inp by (simp add: PdfReader_def)
  have s1p: "s1\<lparr>printed := snd st\<rparr> = s\<lparr>printed := snd st\<rparr>"
    by (simp add: s1_def)
  have body: "add_page_numbers_try i out ol r s
          = (Inr out, write_file out (written (fst st)) (s1\<lparr>printed := snd st\<rparr>))"
    using reader qs(1)
    by (simp add: add_page_numbers_try_def Let_def st_def s1_def split_beta)
  have pages_st: "wpages (fst st) = qs"
    by (simp add: st_def add_nested_outline_pages)
  have "set (printed s1) \<subseteq> set (snd st)"
    using add_nested_outline_log[of "(\<lparr>wpages = qs, woutline = []\<rparr>,
              printed s1 @ [InfoAddingBookmarks (basename out)])"
            ol None "\<lambda>orig_idx. orig_idx * 2"]
    by (auto simp add: st_def)
  moreover have "set (printed s) \<subseteq> set (printed s1)"
    by (auto simp add: s1_def)
  ultimately have "set (printed s) \<subseteq> set (snd st)"
    by blast
  with body s1p pages_st qs(2) show ?thesis
    by (intro exI[of _ "fst st"] exI[of _ "snd st"]) simp
qed

lemma add_page_numbers_ok:
  assumes inp: "fs_lookup s i = Some (Pdf d)"
    and boxes: "\<forall>p\<in>set (pages d). mediabox p \<noteq> None"
  shows "\<exists>s'. add_page_numbers i out ol r s = (Some out, s')
           \<and> undeletable s' = undeletable s
           \<and> is_file s' out
           \<and> (\<forall>p. p \<noteq> out \<longrightarrow> fs_lookup s' p = fs_lookup s p)
           \<and> set (printed s) \<subseteq> set (printed s')"
proof -
  from add_page_numbers_try_ok[OF inp boxes, of out ol r] obtain w l where wl:
    "add_page_numbers_try i out ol r s = (Inr out, write_file out (written w) (s\<lparr>printed := l\<rparr>))"
    "set (printed s) \<subseteq> set l"
    by blast
  show ?thesis
    using wl by (intro exI[of _ "write_file out (written w) (s\<lparr>printed := l\<rparr>)"])
      (simp add: add_page_numbers_def)
qed

lemma name_ne_temp_margin: "slash out n \<noteq> slash out (''temp_margin_'' @ n)"
  by (auto simp add: slash_def dest: arg_cong[where f = length])

lemma name_ne_temp_blank: "slash out n \<noteq> slash out (''temp_blank_'' @ n)"
  by (auto simp add: slash_def dest: arg_cong[where f = length])


lemma process_pdf_try_garbage:
  "fs_lookup s f = Some Garbage \<Longrightarrow>
   process_pdf_try f out bk s
     = (Inl (PdfReadError f),
        print (InfoProcessing f (slash bk (basename f)))
          (write_file (slash bk (basename f)) Garbage (mkdir bk s)))"
  by (simp add: process_pdf_try_def Let_def copy2_def PdfReader_def)


lemma process_pdf_try_nobox:
  "fs_lookup s f = Some (Pdf d) \<Longrightarrow> pages d \<noteq> [] \<Longrightarrow> \<exists>p\<in>set (pages d). mediabox p = None \<Longrightarrow>
   process_pdf_try f out bk s
     = (Inl MediaBoxError,
        print (InfoProcessing f (slash bk (basename f)))
          (write_file (slash bk (basename f)) (Pdf d) (mkdir bk s)))"
  using add_margins_fails[of "pages d"]
  by (simp add: process_pdf_try_def Let_def copy2_def PdfReader_def)

lemma process_pdf_try_ok:
  assumes inp: "fs_lookup s f = Some (Pdf d)" and nonempty: "pages d \<noteq> []"
    and boxes: "\<forall>p\<in>set (pages d). mediabox p \<noteq> None"
  shows "\<exists>s'. process_pdf_try f out bk s = (Inr (Some (slash out (basename f)), False), s')
           \<and> undeletable s' = undeletable s
           \<and> is_file s' (slash out (basename f))
           \<and> (\<forall>p. p \<notin> {slash bk (basename f), slash out (''temp_margin_'' @ basename f),
                         slash out (''temp_blank_'' @ basename f), slash out (basename f)}
                  \<longrightarrow> fs_lookup s' p = fs_lookup s p)
           \<and> set (printed s) \<subseteq> set (printed s')"
proof -
  let ?n = "basename f"
  let ?s3 = "print (InfoProcessing f (slash bk ?n)) (write_file (slash bk ?n) (Pdf d) (mkdir bk s))"
  from add_margins_ok[OF boxes] obtain ms where ms:
    "add_margins (pages d) = Inr ms" "length ms = length (pages d)"
    "\<forall>p\<in>set ms. mediabox p \<noteq> None"
    by blast
  from add_blank_pages_ok[OF ms(3)] obtain bs where bs:
    "add_blank_pages ms = Inr bs" "\<forall>p\<in>set bs. mediabox p \<noteq> None"
    by blast
  let ?s4 = "write_file (slash out (''temp_margin_'' @ ?n)) (Pdf \<lparr>pages = ms, outline = []\<rparr>)
               (mkdir out ?s3)"
  let ?s6 = "write_file (slash out (''temp_blank_'' @ ?n)) (Pdf \<lparr>pages = bs, outline = []\<rparr>) ?s4"
  have l6: "fs_lookup ?s6 (slash out (''temp_blank_'' @ ?n)) = Some (Pdf \<lparr>pages = bs, outline = []\<rparr>)"
    by simp
  have b6: "\<forall>p\<in>set (pages \<lparr>pages = bs, outline = []\<rparr>). mediabox p \<noteq> None"
    using bs(2) by simp
  from add_page_numbers_ok[OF l6 b6, of "slash out ?n" "outline d" True] obtain s7 where s7:
    "add_page_numbers (slash out (''temp_blank_'' @ ?n)) (slash out ?n) (outline d) True ?s6
       = (Some (slash out ?n), s7)"
    "undeletable s7 = undeletable ?s6" "is_file s7 (slash out ?n)"
    "\<forall>p. p \<noteq> slash out ?n \<longrightarrow> fs_lookup s7 p = fs_lookup ?s6 p"
    "set (printed ?s6) \<subseteq> set (printed s7)"
    by blast
  have c: "copy2 f (slash bk ?n) (mkdir bk s) = Inr (write_file (slash bk ?n) (Pdf d) (mkdir bk s))"
    using inp by (simp add: copy2_def)
  have r3: "PdfReader ?s3 f = Inr d"
    using inp by (simp add: PdfReader_def)
  have r4: "PdfReader ?s4 (slash out (''temp_margin_'' @ ?n)) = Inr \<lparr>pages = ms, outline = []\<rparr>"
    by (simp add: PdfReader_def)
  have run: "process_pdf_try f out bk s
              = (Inr (Some (slash out ?n), False), print (InfoDone (slash out ?n)) s7)"
    using c r3 r4 nonempty ms(1) ms(2) bs(1) s7(1)
    by (simp add: process_pdf_try_def Let_def)
  show ?thesis
    using run s7(2) s7(3) s7(4) s7(5)
    by (intro exI[of _ "print (InfoDone (slash out ?n)) s7"]) auto
qed

lemma remove_temp_file_lookup:
  "p \<noteq> t \<Longrightarrow> fs_lookup (remove_temp_file t s) p = fs_lookup s p"
  by (auto simp add: remove_temp_file_def unlink_def fs_lookup_def delete_conv')



lemma process_pdf_good:
  assumes inp: "fs_lookup s f = Some (Pdf d)" and nonempty: "pages d \<noteq> []"
    and boxes: "\<forall>p\<in>set (pages d). mediabox p \<noteq> None"
  shows "fst (process_pdf f out bk s) = Some (slash out (basename f))
       \<and> is_file (snd (process_pdf f out bk s)) (slash out (basename f))"
proof -
  from process_pdf_try_ok[OF inp nonempty boxes, of out bk] obtain s' where s':
    "process_pdf_try f out bk s = (Inr (Some (slash out (basename f)), False), s')"
    "is_file s' (slash out (basename f))"
    by blast
  show ?thesis
    using s' name_ne_temp_margin[of out "basename f"] name_ne_temp_blank[of out "basename f"]
    by (simp add: process_pdf_def Let_def remove_temp_file_other)
qed

lemma process_pdf_bad:
  assumes inp: "fs_lookup s f = Some c"
    and bad: "c = Garbage \<or> (\<exists>d. c = Pdf d \<and> pages d \<noteq> [] \<and> (\<exists>p\<in>set (pages d). mediabox p = None))"
  shows "\<exists>e. fst (process_pdf f out bk s) = None
       \<and> ErrProcessing f e \<in> set (printed (snd (process_pdf f out bk s)))
       \<and> InfoCopiedOriginal (slash out (basename f)) \<in> set (printed (snd (process_pdf f out bk s)))
       \<and> fs_lookup (snd (process_pdf f out bk s)) (slash out (basename f)) = Some c"
proof -
  let ?s3 = "print (InfoProcessing f (slash bk (basename f)))
               (write_file (slash bk (basename f)) c (mkdir bk s))"
  obtain e where e: "process_pdf_try f out bk s = (Inl e, ?s3)"
    using inp bad process_pdf_try_garbage[of s f out bk] process_pdf_try_nobox[of s f _ out bk]
    by auto
  let ?s2 = "mkdir out (print (ErrProcessing f e) ?s3)"
  have l: "fs_lookup ?s2 f = Some c"
    using inp by simp
  then have cp: "copy2 f (slash out (basename f)) ?s2
              = Inr (write_file (slash out (basename f)) c ?s2)"
    by (simp add: copy2_def)
  let ?after = "print (InfoCopiedOriginal (slash out (basename f)))
                  (write_file (slash out (basename f)) c ?s2)"
  have run: "process_pdf f out bk s
          = (None, remove_temp_file (slash out (''temp_blank_'' @ basename f))
                     (remove_temp_file (slash out (''temp_margin_'' @ basename f)) ?after))"
    using e cp by (simp add: process_pdf_def Let_def)
  have p1: "set (printed ?after)
              \<subseteq> set (printed (remove_temp_file (slash out (''temp_blank_'' @ basename f))
                     (remove_temp_file (slash out (''temp_margin_'' @ basename f)) ?after)))"
    using remove_temp_file_printed[of ?after "slash out (''temp_margin_'' @ basename f)"]
      remove_temp_file_printed[of "remove_temp_file (slash out (''temp_margin_'' @ basename f)) ?after"
        "slash out (''temp_blank_'' @ basename f)"]
    by blast
  have in1: "ErrProcessing f e \<in> set (printed ?after)"
    by simp
  have in2: "InfoCopiedOriginal (slash out (basename f)) \<in> set (printed ?after)"
    by simp
  have lk: "fs_lookup (remove_temp_file (slash out (''temp_blank_'' @ basename f))
                     (remove_temp_file (slash out (''temp_margin_'' @ basename f)) ?after))
              (slash out (basename f)) = Some c"
    using name_ne_temp_margin[of out "basename f"] name_ne_temp_blank[of out "basename f"]
    by (simp add: remove_temp_file_lookup)
  show ?thesis
    using run p1 in1 in2 lk by (intro exI[of _ e]) auto
qed

lemma prints_nil [simp]: "prints [] s = s"
  by (simp add: prints_def)

lemma fs_lookup_prints [simp]: "fs_lookup (prints ev s) q = fs_lookup s q"
  by (simp add: fs_lookup_def prints_def)

lemma printed_prints [simp]: "printed (prints ev s) = printed s @ ev"
  by (simp add: prints_def)

lemma remove_tmp_files_undeletable [simp]:
  "undeletable (remove_tmp_files ps s) = undeletable s"
  by (induction ps s rule: remove_tmp_files.induct) (auto simp add: unlink_def)


















lemma length_offsets [simp]: "length (offsets start ns) = length ns"
  by (induction ns arbitrary: start) simp_all

lemma offsets_nth: "i < length ns \<Longrightarrow> offsets start ns ! i = start + sum_list (take i ns)"
proof (induction ns arbitrary: start i)
  case Nil
  then show ?case by simp
next
  case (Cons n ns)
  then show ?case by (cases i) simp_all
qed

lemma concat_nth_offset:
  "i < length rs \<Longrightarrow> j < length (rs ! i) \<Longrightarrow>
   concat rs ! (sum_list (map length (take i rs)) + j) = rs ! i ! j"
proof (induction rs arbitrary: i)
  case Nil
  then show ?case by simp
next
  case (Cons r rs)
  then show ?case
    by (cases i) (simp_all add: nth_append)
qed










end
